theory Spec2Isabelle
  imports Complex_Main
begin

section \<open>Python values used by the import script\<close>

text \<open>
  The script \<^verbatim>\<open>scripts/predicting_the_past_import.py\<close> reads a reactor table (PRIS) and a
  table of scraped coordinates, merges the two by approximate name matching, selects the
  reactors of a region and derives lifetimes and build times from their dates.

  A Python string is a sequence of Unicode code points, so it is modelled as a list of
  natural numbers; \<open>len\<close>, \<open>find\<close> and slicing count code points. \<open>str\<close> turns an ASCII
  literal into this form.
\<close>

type_synonym pystr = "nat list"

definition str :: "string \<Rightarrow> pystr" where
  "str s = map of_char s"

text \<open>
  The exceptions the modelled functions can raise. \<open>ValueError\<close> carries the message of the
  one \<^verbatim>\<open>raise ValueError(...)\<close> of the script; the failures of \<^verbatim>\<open>float()\<close> and of the date
  parser (both \<^verbatim>\<open>ValueError\<close>s in Python) are kept apart by their own constructors, which
  carry the offending string. \<open>InsertError\<close> stands for the errors of
  \<^verbatim>\<open>DataFrame.insert\<close>.
\<close>

datatype error =
    IndexError
  | ValueError pystr
  | FloatError pystr
  | ParserError pystr
  | InsertError

text \<open>\<^verbatim>\<open>xs[i]\<close> for a constant index \<open>i \<ge> 0\<close>: out of range raises.\<close>

definition getitem :: "'a list \<Rightarrow> nat \<Rightarrow> error + 'a" where
  "getitem xs i = (if i < length xs then Inr (xs ! i) else Inl IndexError)"

subsection \<open>Case mapping, white space and digits\<close>

text \<open>
  \<^verbatim>\<open>str.lower\<close> and \<^verbatim>\<open>str.upper\<close> map each code point by the Unicode tables. The model
  follows those tables on U+0000 to U+017F (Basic Latin, Latin-1 Supplement, Latin
  Extended-A), which covers the reactor table (read as ISO 8859-1) and the edge-case
  table of the script; code points above U+017F are left as they are.
\<close>

definition lower_cp :: "nat \<Rightarrow> nat list" where
  "lower_cp c =
    (if (65 \<le> c \<and> c \<le> 90) \<or> (192 \<le> c \<and> c \<le> 222 \<and> c \<noteq> 215) then [c + 32]
     else if c = 304 then [105, 775]
     else if c = 376 then [255]
     else if ((256 \<le> c \<and> c \<le> 311) \<or> (330 \<le> c \<and> c \<le> 375)) \<and> even c then [c + 1]
     else if ((313 \<le> c \<and> c \<le> 328) \<or> (377 \<le> c \<and> c \<le> 382)) \<and> odd c then [c + 1]
     else [c])"

definition upper_cp :: "nat \<Rightarrow> nat list" where
  "upper_cp c =
    (if (97 \<le> c \<and> c \<le> 122) \<or> (224 \<le> c \<and> c \<le> 254 \<and> c \<noteq> 247) then [c - 32]
     else if c = 181 then [924]
     else if c = 223 then [83, 83]
     else if c = 255 then [376]
     else if c = 305 then [73]
     else if c = 329 then [700, 78]
     else if c = 383 then [83]
     else if ((256 \<le> c \<and> c \<le> 311) \<or> (330 \<le> c \<and> c \<le> 375)) \<and> odd c then [c - 1]
     else if ((313 \<le> c \<and> c \<le> 328) \<or> (377 \<le> c \<and> c \<le> 382)) \<and> even c then [c - 1]
     else [c])"

definition py_lower :: "pystr \<Rightarrow> pystr" where
  "py_lower s = concat (map lower_cp s)"

definition py_upper :: "pystr \<Rightarrow> pystr" where
  "py_upper s = concat (map upper_cp s)"

text \<open>\<^verbatim>\<open>str.isspace\<close> of one code point: the white space of Unicode.\<close>

definition isspace :: "nat \<Rightarrow> bool" where
  "isspace c =
    ((9 \<le> c \<and> c \<le> 13) \<or> (28 \<le> c \<and> c \<le> 32) \<or> c = 133 \<or> c = 160 \<or> c = 5760
     \<or> (8192 \<le> c \<and> c \<le> 8202) \<or> c = 8232 \<or> c = 8233 \<or> c = 8239 \<or> c = 8287
     \<or> c = 12288)"

text \<open>A decimal digit as \<^verbatim>\<open>int()\<close> reads it; the model knows the ASCII digits.\<close>

definition is_digit :: "nat \<Rightarrow> bool" where
  "is_digit c = (48 \<le> c \<and> c \<le> 57)"

subsection \<open>String methods\<close>

definition starts_with :: "pystr \<Rightarrow> pystr \<Rightarrow> bool" where
  "starts_with s sub = (take (length sub) s = sub)"

text \<open>
  \<^verbatim>\<open>s.find(sub)\<close>: the index of the first occurrence of \<open>sub\<close>, or \<open>-1\<close>. \<open>find_at\<close> scans
  the rest of the string from position \<open>k\<close>.
\<close>

fun find_at :: "pystr \<Rightarrow> pystr \<Rightarrow> nat \<Rightarrow> int" where
  "find_at [] sub k = (if sub = [] then int k else - 1)"
| "find_at (c # cs) sub k =
     (if starts_with (c # cs) sub then int k else find_at cs sub (Suc k))"

definition py_find :: "pystr \<Rightarrow> pystr \<Rightarrow> int" where
  "py_find s sub = find_at s sub 0"

text \<open>
  The slices \<^verbatim>\<open>s[:i]\<close> and \<^verbatim>\<open>s[i:]\<close>: a negative index counts from the end, and an index
  beyond either end is clamped.
\<close>

definition slice_to :: "'a list \<Rightarrow> int \<Rightarrow> 'a list" where
  "slice_to s i = (if i < 0 then take (nat (int (length s) + i)) s else take (nat i) s)"

definition slice_from :: "'a list \<Rightarrow> int \<Rightarrow> 'a list" where
  "slice_from s i = (if i < 0 then drop (nat (int (length s) + i)) s else drop (nat i) s)"

text \<open>\<^verbatim>\<open>s.strip()\<close>, \<^verbatim>\<open>s.split()\<close> and \<^verbatim>\<open>sep.join(xs)\<close>.\<close>

definition py_strip :: "pystr \<Rightarrow> pystr" where
  "py_strip s = rev (dropWhile isspace (rev (dropWhile isspace s)))"

fun split_ws :: "pystr \<Rightarrow> pystr \<Rightarrow> pystr list" where
  "split_ws [] cur = (if cur = [] then [] else [cur])"
| "split_ws (c # cs) cur =
     (if isspace c then (if cur = [] then split_ws cs [] else cur # split_ws cs [])
      else split_ws cs (cur @ [c]))"

definition py_split :: "pystr \<Rightarrow> pystr list" where
  "py_split s = split_ws s []"

fun py_join :: "pystr \<Rightarrow> pystr list \<Rightarrow> pystr" where
  "py_join sep [] = []"
| "py_join sep [x] = x"
| "py_join sep (x # y # r) = x @ sep @ py_join sep (y # r)"

text \<open>
  \<^verbatim>\<open>s.replace(old, new)\<close> replaces every occurrence of \<open>old\<close>, found from left to right
  without overlap; an empty \<open>old\<close> matches before every code point and at the end.
\<close>

function replace_from :: "pystr \<Rightarrow> pystr \<Rightarrow> pystr \<Rightarrow> pystr" where
  "replace_from [] old new = []"
| "replace_from (c # cs) old new =
     (if old \<noteq> [] \<and> starts_with (c # cs) old
      then new @ replace_from (drop (length old) (c # cs)) old new
      else c # replace_from cs old new)"
  by pat_completeness auto
termination
  by (relation "measure (\<lambda>(s, old, new). length s)") auto

definition py_replace :: "pystr \<Rightarrow> pystr \<Rightarrow> pystr \<Rightarrow> pystr" where
  "py_replace s old new =
    (if old = [] then new @ concat (map (\<lambda>c. c # new) s) else replace_from s old new)"

text \<open>
  \<^verbatim>\<open>int(s)\<close> accepts optional white space around an optional sign and groups of digits
  separated by single underscores. \<open>int_literal\<close> says whether \<^verbatim>\<open>int(s)\<close> returns; the
  script only asks that.
\<close>

fun digit_groups :: "pystr \<Rightarrow> bool" where
  "digit_groups [] = False"
| "digit_groups [c] = is_digit c"
| "digit_groups (c # d # r) =
     (is_digit c \<and> (if d = 95 then r \<noteq> [] \<and> digit_groups r else digit_groups (d # r)))"

definition int_literal :: "pystr \<Rightarrow> bool" where
  "int_literal s =
    (case py_strip s of
       [] \<Rightarrow> False
     | c # r \<Rightarrow> if c = 43 \<or> c = 45 then digit_groups r else digit_groups (c # r))"

section \<open>Name sanitizers\<close>

text \<open>\<^verbatim>\<open>is_int\<close>: \<^verbatim>\<open>int(str)\<close> in a \<^verbatim>\<open>try\<close>, \<open>False\<close> on \<^verbatim>\<open>ValueError\<close>.\<close>

definition is_int :: "pystr \<Rightarrow> bool" where
  "is_int s = int_literal s"

text \<open>
  \<^verbatim>\<open>sanitize_pris_name\<close>. The source reads \<^verbatim>\<open>pris_name[-1]\<close> only after
  \<^verbatim>\<open>pris_name.find('-') != -1\<close> held (\<^verbatim>\<open>and\<close> evaluates its right side only then), so the
  string is not empty there and the read cannot raise.
\<close>

definition sanitize_pris_name :: "pystr \<Rightarrow> pystr" where
  "sanitize_pris_name name =
    (let pris_name = py_lower name in
     if py_find pris_name (str ''-'') \<noteq> - 1 \<and> is_int [last pris_name] then
       (if py_find (slice_from pris_name (py_find pris_name (str ''-'') + 1)) (str ''-'') \<noteq> - 1
        then
          (let idx = py_find pris_name (str ''-'');
               idx = idx + py_find (slice_from pris_name (py_find pris_name (str ''-'') + 1))
                                   (str ''-'')
           in slice_to pris_name idx)
        else slice_to pris_name (py_find pris_name (str ''-'')))
     else pris_name)"

text \<open>
  \<^verbatim>\<open>sanitize_webscrape_name\<close>: lower case, every blacklisted word removed in the order of
  the list, then stripped and its runs of white space collapsed to one space.
\<close>

definition blacklist :: "pystr list" where
  "blacklist = [str ''nuclear'', str ''power'', str ''plant'', str ''generating'',
                str ''station'', str ''reactor'', str ''atomic'', str ''energy'',
                str ''center'', str ''electric'']"

definition sanitize_webscrape_name :: "pystr \<Rightarrow> pystr" where
  "sanitize_webscrape_name name =
    (let name = py_lower name;
         name = fold (\<lambda>blacklisted name. py_replace name blacklisted []) blacklist name;
         name = py_strip name;
         name = py_join (str '' '') (py_split name)
     in name)"

section \<open>Merging the coordinates\<close>

subsection \<open>The similarity ratio\<close>

text \<open>
  \<^verbatim>\<open>fuzz.ratio\<close> belongs to the fuzzywuzzy library, not to the script, so the merge takes
  the ratio as a parameter \<open>ratio\<close> and its properties hold for every such function.

  \<open>fuzz_ratio\<close> is the library's function as far as the examples below need it:
  \<open>0\<close> when either string is empty, and otherwise \<open>2 \<sdot> M / T\<close> as a rounded percentage,
  where \<open>T\<close> is the sum of the two lengths and \<open>M\<close> the number of matched code points.
  With the library's Levenshtein back end \<open>M\<close> is the length of a longest common
  subsequence, which \<open>lcs\<close> defines by the usual recursion. \<open>lcs_length\<close> computes the same
  number as a table, one row for each suffix of the first string and one cell for each
  suffix of the second: \<open>lcs_row\<close> turns the row of a suffix into the row of the suffix
  that is longer by \<open>x\<close>. The \<^verbatim>\<open>difflib\<close> back end never counts more matches than that. Percentages are rounded as
  \<^verbatim>\<open>round\<close> does, half to even, by \<open>py_round\<close>; \<open>py_trunc\<close> is \<^verbatim>\<open>int()\<close> of a float.
  Floats are modelled by exact reals.
\<close>

definition py_round :: "real \<Rightarrow> int" where
  "py_round x =
    (let f = \<lfloor>x\<rfloor>; d = x - of_int f
     in if d < 1 / 2 then f else if 1 / 2 < d then f + 1 else if even f then f else f + 1)"

definition py_trunc :: "real \<Rightarrow> int" where
  "py_trunc x = (if 0 \<le> x then \<lfloor>x\<rfloor> else \<lceil>x\<rceil>)"

fun lcs :: "pystr \<Rightarrow> pystr \<Rightarrow> nat" where
  "lcs [] ys = 0"
| "lcs xs [] = 0"
| "lcs (x # xs) (y # ys) =
     (if x = y then lcs xs ys + 1 else max (lcs xs (y # ys)) (lcs (x # xs) ys))"

fun lcs_row :: "nat \<Rightarrow> pystr \<Rightarrow> nat list \<Rightarrow> nat list" where
  "lcs_row x (y # ys) (d # u # prev) =
     (case lcs_row x ys (u # prev) of
        r # rs \<Rightarrow> (if x = y then u + 1 else max d r) # r # rs
      | [] \<Rightarrow> [])"
| "lcs_row x ys prev = [0]"

definition lcs_length :: "pystr \<Rightarrow> pystr \<Rightarrow> nat" where
  "lcs_length a b = hd (foldr (\<lambda>x prev. lcs_row x b prev) a (replicate (length b + 1) 0))"

text \<open>The suffixes of a string, longest first: they index the cells of a row.\<close>

fun tails :: "pystr \<Rightarrow> pystr list" where
  "tails [] = [[]]"
| "tails (y # ys) = (y # ys) # tails ys"

definition fuzz_ratio :: "pystr \<Rightarrow> pystr \<Rightarrow> int" where
  "fuzz_ratio s1 s2 =
    (if s1 = [] \<or> s2 = [] then 0
     else py_round (100 * (2 * real (lcs_length s1 s2) / real (length s1 + length s2))))"

subsection \<open>The tables\<close>

text \<open>
  \<^verbatim>\<open>import_pris\<close> reads the reactor table into a data frame and inserts the columns
  \<^verbatim>\<open>Latitude\<close> and \<^verbatim>\<open>Longitude\<close> at positions 13 and 14, their cells empty strings (the
  inserted \<^verbatim>\<open>NaN\<close> is replaced by \<^verbatim>\<open>''\<close>). A frame is its column names and its rows; every
  cell is modelled by its text, an empty cell by the empty string. \<open>rectangular\<close> says
  that every row has one cell per column, as in every frame pandas builds.
\<close>

record frame =
  columns :: "pystr list"
  rows :: "pystr list list"

definition rectangular :: "frame \<Rightarrow> bool" where
  "rectangular f = list_all (\<lambda>r. length r = length (columns f)) (rows f)"

text \<open>
  \<^verbatim>\<open>DataFrame.insert(loc, column, value)\<close> raises when the column exists already or when
  \<open>loc\<close> is beyond the number of columns.
\<close>

definition insert_column :: "nat \<Rightarrow> pystr \<Rightarrow> frame \<Rightarrow> error + frame" where
  "insert_column loc column f =
    (if column \<in> set (columns f) \<or> length (columns f) < loc then Inl InsertError
     else Inr \<lparr>columns = take loc (columns f) @ [column] @ drop loc (columns f),
               rows = map (\<lambda>r. take loc r @ [[]] @ drop loc r) (rows f)\<rparr>)"

definition import_pris :: "frame \<Rightarrow> error + frame" where
  "import_pris pris =
    (case insert_column 13 (str ''Latitude'') pris of
       Inl e \<Rightarrow> Inl e
     | Inr pris \<Rightarrow> insert_column 14 (str ''Longitude'') pris)"

text \<open>
  One row of \<^verbatim>\<open>SELECT name, long, lat FROM reactors_coordinates\<close>, the coordinates as
  text.
\<close>

record geo_row =
  geo_name :: pystr
  geo_long :: pystr
  geo_lat :: pystr

text \<open>
  \<^verbatim>\<open>get_edge_cases\<close>: the dictionary in the order it is written. Three values hold code
  points beyond ASCII: U+014C in \<^verbatim>\<open>Oi\<close>, U+00F3 in \<^verbatim>\<open>Asco\<close> and U+014D in
  \<^verbatim>\<open>Higashidori\<close>.
\<close>

definition get_edge_cases :: "(pystr \<times> pystr) list" where
  "get_edge_cases =
    [(str ''OHI-'', 332 # str ''i''),
     (str ''ASCO-'', str ''Asc'' @ [243]),
     (str ''ROVNO-'', str ''Rivne''),
     (str ''SHIN-KORI-'', str ''Kori''),
     (str ''ANO-'', str ''Arkansas One''),
     (str ''HANBIT-'', str ''Yeonggwang''),
     (str ''FERMI-'', str ''Enrico Fermi''),
     (str ''BALTIC-'', str ''Kaliningrad''),
     (str ''COOK-'', str ''Donald C. Cook''),
     (str ''HATCH-'', str ''Edwin I. Hatch''),
     (str ''HARRIS-'', str ''Shearon Harris''),
     (str ''SHIN-WOLSONG-'', str ''Wolseong''),
     (str ''ST. ALBAN-'', str ''Saint-Alban''),
     (str ''LASALLE-'', str ''LaSalle County''),
     (str ''ZAPOROZHYE-'', str ''Zaporizhzhya''),
     (str ''ROBINSON-'', str ''H. B. Robinson''),
     (str ''SUMMER-'', str ''Virgil C. Summer''),
     (str ''FARLEY-'', str ''Joseph M. Farley''),
     (str ''ST. LAURENT '', str ''Saint-Laurent''),
     (str ''HADDAM NECK'', str ''Connecticut1 Yankee''),
     (str ''FITZPATRICK'', str ''James A. FitzPatrick''),
     (str ''HIGASHI DORI-1 (TOHOKU)'', str ''Higashid'' @ [333] @ str ''ri'')]"

subsection \<open>The loops of \<^verbatim>\<open>merge_coordinates\<close>\<close>

text \<open>
  The body of the two loops, for one scraped row \<open>web\<close> and one reactor row \<open>prs\<close>.
  \<open>edge_loop\<close> is the \<^verbatim>\<open>for other in others.keys()\<close> of the \<^verbatim>\<open>else\<close> branch; both names
  were sanitized before it and are not computed again. \<^verbatim>\<open>prs[1]\<close> is the reactor's name,
  \<^verbatim>\<open>prs[13]\<close> and \<^verbatim>\<open>prs[14]\<close> are the inserted cells.

  The row \<open>prs\<close> is the Series that \<^verbatim>\<open>iterrows\<close> yields; the body assigns to it and to nothing
  else.
\<close>

definition edge_loop ::
  "(pystr \<Rightarrow> pystr \<Rightarrow> int) \<Rightarrow> (pystr \<times> pystr) list \<Rightarrow> pystr \<Rightarrow> pystr \<Rightarrow> geo_row \<Rightarrow>
   pystr list \<Rightarrow> pystr list" where
  "edge_loop ratio others webscrape_name pris_name web prs =
    fold (\<lambda>(other, val) prs.
            let edge_case_key = py_lower other;
                edge_case_value = py_lower val
            in if 80 < ratio pris_name edge_case_key then
                 (if 75 < ratio webscrape_name edge_case_value
                  then prs[13 := geo_lat web, 14 := geo_long web]
                  else prs)
               else prs)
         others prs"

definition merge_row ::
  "(pystr \<Rightarrow> pystr \<Rightarrow> int) \<Rightarrow> (pystr \<times> pystr) list \<Rightarrow> geo_row \<Rightarrow> pystr list \<Rightarrow> pystr list"
  where
  "merge_row ratio others web prs =
    (let webscrape_name = sanitize_webscrape_name (geo_name web);
         pris_name = sanitize_pris_name (prs ! 1)
     in if 78 < ratio webscrape_name pris_name
        then prs[13 := geo_lat web, 14 := geo_long web]
        else edge_loop ratio others webscrape_name pris_name web prs)"

text \<open>
  \<^verbatim>\<open>for web in coords: for i, prs in pris.iterrows(): ...\<close>. The source never assigns to
  the frame \<^verbatim>\<open>pris\<close>, only to the Series \<open>prs\<close>, so the frame changes only if the Series
  shares its cells with it. That is decided by pandas, not by the script: for a frame
  whose columns have different dtypes (a numeric capacity column beside the text
  columns, as \<^verbatim>\<open>read_csv\<close> infers them) \<^verbatim>\<open>iterrows\<close> builds every Series from a fresh array,
  a copy; only for a frame of one dtype can the Series be a view (pandas without
  copy-on-write). The parameter \<open>view\<close> says which of the two the loop runs with, and
  \<open>row_after\<close> is the row of the frame once the body has turned the Series \<open>prs\<close> into
  \<open>prs'\<close>.
\<close>

definition row_after :: "bool \<Rightarrow> pystr list \<Rightarrow> pystr list \<Rightarrow> pystr list" where
  "row_after view prs prs' = (if view then prs' else prs)"

definition merge_loop ::
  "bool \<Rightarrow> (pystr \<Rightarrow> pystr \<Rightarrow> int) \<Rightarrow> (pystr \<times> pystr) list \<Rightarrow> geo_row list \<Rightarrow>
   pystr list list \<Rightarrow> pystr list list" where
  "merge_loop view ratio others coords prows =
    fold (\<lambda>web prows. map (\<lambda>prs. row_after view prs (merge_row ratio others web prs)) prows)
      coords prows"

text \<open>
  The function itself; its result is the frame it writes to
  \<^verbatim>\<open>reactors_pris_2016.csv\<close>.
\<close>

definition merge_coordinates ::
  "bool \<Rightarrow> (pystr \<Rightarrow> pystr \<Rightarrow> int) \<Rightarrow> frame \<Rightarrow> geo_row list \<Rightarrow> error + frame" where
  "merge_coordinates view ratio pris coords =
    (case import_pris pris of
       Inl e \<Rightarrow> Inl e
     | Inr pris \<Rightarrow>
         Inr (pris\<lparr>rows := merge_loop view ratio get_edge_cases coords (rows pris)\<rparr>))"

text \<open>
  The condition under which the loop body assigns, written out: the direct comparison
  of the two sanitized names, or an entry of the table.
\<close>

definition matches ::
  "(pystr \<Rightarrow> pystr \<Rightarrow> int) \<Rightarrow> (pystr \<times> pystr) list \<Rightarrow> geo_row \<Rightarrow> pystr list \<Rightarrow> bool" where
  "matches ratio others web prs =
    (let webscrape_name = sanitize_webscrape_name (geo_name web);
         pris_name = sanitize_pris_name (prs ! 1)
     in 78 < ratio webscrape_name pris_name \<or>
        list_ex (\<lambda>(other, val). 80 < ratio pris_name (py_lower other) \<and>
                                75 < ratio webscrape_name (py_lower val)) others)"

section \<open>Dates and floats\<close>

text \<open>
  \<^verbatim>\<open>dateutil.parser.parse\<close> is a library function; the functions below take it as the
  parameter \<open>parse\<close>, which returns the \<^verbatim>\<open>datetime\<close> it reads or \<open>None\<close> where the parser
  raises. The \<^verbatim>\<open>datetime\<close> is naive (no time zone).
\<close>

record datetime =
  year :: int
  month :: int
  day :: int
  hour :: int
  minute :: int
  second :: int
  microsecond :: int

text \<open>
  The day count of \<^verbatim>\<open>datetime\<close>: \<^verbatim>\<open>toordinal\<close> numbers the days from 0001-01-01, and the
  \<^verbatim>\<open>days\<close> of a difference is the floor of the difference in days.
\<close>

definition is_leap :: "int \<Rightarrow> bool" where
  "is_leap y = (y mod 4 = 0 \<and> (y mod 100 \<noteq> 0 \<or> y mod 400 = 0))"

definition days_before_year :: "int \<Rightarrow> int" where
  "days_before_year y = (y - 1) * 365 + (y - 1) div 4 - (y - 1) div 100 + (y - 1) div 400"

definition days_in_month :: "int \<Rightarrow> int \<Rightarrow> int" where
  "days_in_month y m =
    (if m = 2 \<and> is_leap y then 29
     else [31, 28, 31, 30, 31, 30, 31, 31, 30, 31, 30, 31] ! nat (m - 1))"

definition days_before_month :: "int \<Rightarrow> int \<Rightarrow> int" where
  "days_before_month y m =
    [0, 31, 59, 90, 120, 151, 181, 212, 243, 273, 304, 334] ! nat (m - 1)
      + (if 2 < m \<and> is_leap y then 1 else 0)"

definition toordinal :: "datetime \<Rightarrow> int" where
  "toordinal d = days_before_year (year d) + days_before_month (year d) (month d) + day d"

definition total_microseconds :: "datetime \<Rightarrow> int" where
  "total_microseconds d =
    ((toordinal d * 24 + hour d) * 60 + minute d) * 60 * 1000000 + second d * 1000000
      + microsecond d"

definition timedelta_days :: "datetime \<Rightarrow> datetime \<Rightarrow> int" where
  "timedelta_days a b = (total_microseconds a - total_microseconds b) div 86400000000"

text \<open>A date without a time of day, as the parser returns it for a string that names none.\<close>

definition midnight :: "int \<Rightarrow> int \<Rightarrow> int \<Rightarrow> datetime" where
  "midnight y m d =
    \<lparr>year = y, month = m, day = d, hour = 0, minute = 0, second = 0, microsecond = 0\<rparr>"

text \<open>
  \<^verbatim>\<open>float(s)\<close> is the parameter \<open>to_float\<close>, \<open>None\<close> where it raises \<^verbatim>\<open>ValueError\<close>. A float
  is a finite value, an infinity or not a number; \<open>float_gt\<close> is \<^verbatim>\<open>x > c\<close>.
\<close>

datatype pyfloat = Fl real | PInf | NInf | NaN

fun float_gt :: "pyfloat \<Rightarrow> real \<Rightarrow> bool" where
  "float_gt (Fl x) c = (c < x)"
| "float_gt PInf c = True"
| "float_gt NInf c = False"
| "float_gt NaN c = False"

text \<open>
  Two parsers to run the functions on: \<open>iso_date\<close> reads exactly \<^verbatim>\<open>YYYY-MM-DD\<close>, and
  \<open>decimal_float\<close> reads a non-empty string of digits. On these strings the library's
  parser and \<^verbatim>\<open>float\<close> return the same values.
\<close>

definition digits_value :: "pystr \<Rightarrow> nat" where
  "digits_value s = fold (\<lambda>c n. 10 * n + (c - 48)) s 0"

definition iso_date :: "pystr \<Rightarrow> datetime option" where
  "iso_date s =
    (if length s = 10 \<and> s ! 4 = 45 \<and> s ! 7 = 45
        \<and> list_all is_digit (take 4 s @ take 2 (drop 5 s) @ drop 8 s)
     then
       (let y = int (digits_value (take 4 s));
            m = int (digits_value (take 2 (drop 5 s)));
            d = int (digits_value (drop 8 s))
        in if 1 \<le> y \<and> 1 \<le> m \<and> m \<le> 12 \<and> 1 \<le> d \<and> d \<le> days_in_month y m
           then Some (midnight y m d)
           else None)
     else None)"

definition decimal_float :: "pystr \<Rightarrow> pyfloat option" where
  "decimal_float s =
    (if s \<noteq> [] \<and> list_all is_digit s then Some (Fl (real (digits_value s))) else None)"

section \<open>Selecting the reactors of a region\<close>

text \<open>
  \<^verbatim>\<open>confirm_deployment\<close>. \<^verbatim>\<open>float(capacity)\<close> is evaluated only when the date string is
  longer than four code points (\<^verbatim>\<open>and\<close>), and it is outside the \<^verbatim>\<open>try\<close>; whatever the date
  parser raises inside the \<^verbatim>\<open>try\<close> is swallowed.
\<close>

definition confirm_deployment ::
  "(pystr \<Rightarrow> datetime option) \<Rightarrow> (pystr \<Rightarrow> pyfloat option) \<Rightarrow> pystr \<Rightarrow> pystr \<Rightarrow> error + bool"
  where
  "confirm_deployment parse to_float date_str capacity =
    (if 4 < length date_str then
       (case to_float capacity of
          None \<Rightarrow> Inl (FloatError capacity)
        | Some c \<Rightarrow>
            if float_gt c 400 then
              (case parse date_str of Some d \<Rightarrow> Inr True | None \<Rightarrow> Inr False)
            else Inr False)
     else Inr False)"

text \<open>The country sets of \<^verbatim>\<open>select_region\<close> and its dictionary \<^verbatim>\<open>regions\<close>.\<close>

definition ASIA :: "pystr list" where
  "ASIA = [str ''IRAN'', str ''JAPAN'', str ''KAZAKHSTAN'', str ''BANGLADESH'', str ''CHINA'',
           str ''INDIA'', str ''UNITED ARAB EMIRATES'', str ''VIETNAM'', str ''PAKISTAN'',
           str ''PHILIPPINES'', str ''SOUTH KOREA'']"

definition UNITED_STATES :: "pystr list" where
  "UNITED_STATES = [str ''UNITED STATES'']"

definition SOUTH_AMERICA :: "pystr list" where
  "SOUTH_AMERICA = [str ''ARGENTINA'', str ''BRAZIL'']"

definition NORTH_AMERICA :: "pystr list" where
  "NORTH_AMERICA = [str ''CANADA'', str ''MEXICO'', str ''UNITED STATES'']"

definition EUROPE :: "pystr list" where
  "EUROPE = [str ''UKRAINE'', str ''UNITED KINGDOM'', str ''POLAND'', str ''ROMANIA'',
             str ''RUSSIA'', str ''BELARUS'', str ''BELGIUM'', str ''BULGARIA'', str ''GERMANY'',
             str ''ITALY'', str ''NETHERLANDS'', str ''SWEDEN'', str ''SWITZERLAND'',
             str ''TURKEY'', str ''SLOVENIA'', str ''SOVIET UNION'', str ''SPAIN'',
             str ''CZECHOSLOVAKIA'', str ''FINLAND'', str ''FRANCE'']"

definition AFRICA :: "pystr list" where
  "AFRICA = [str ''EGYPT'', str ''MOROCCO'', str ''SOUTH AFRICA'', str ''TUNISIA'']"

text \<open>The set \<^verbatim>\<open>ALL\<close> of the source, under a name the syntax allows.\<close>

definition ALL_COUNTRIES :: "pystr list" where
  "ALL_COUNTRIES = SOUTH_AMERICA @ NORTH_AMERICA @ EUROPE @ ASIA @ AFRICA @ UNITED_STATES"

definition regions :: "(pystr \<times> pystr list) list" where
  "regions =
    [(str ''ASIA'', ASIA),
     (str ''AFRICA'', AFRICA),
     (str ''EUROPE'', EUROPE),
     (str ''SOUTH_AMERICA'', SOUTH_AMERICA),
     (str ''NORTH_AMERICA'', NORTH_AMERICA),
     (str ''UNITED_STATES'', UNITED_STATES),
     (str ''ALL'', ALL_COUNTRIES)]"

text \<open>
  The loop of \<^verbatim>\<open>select_region\<close> over the rows, \<open>reactor_list\<close> being the list built so far
  and \<open>countries\<close> the set \<^verbatim>\<open>regions[region.upper()]\<close>. A row is a list of strings, as
  \<^verbatim>\<open>csv.reader\<close> yields it; \<^verbatim>\<open>row[3]\<close> and \<^verbatim>\<open>row[10]\<close> are read only for a row of the region.
\<close>

fun select_rows ::
  "(pystr \<Rightarrow> datetime option) \<Rightarrow> (pystr \<Rightarrow> pyfloat option) \<Rightarrow> pystr list \<Rightarrow>
   pystr list list \<Rightarrow> pystr list list \<Rightarrow> error + pystr list list" where
  "select_rows parse to_float countries [] reactor_list = Inr reactor_list"
| "select_rows parse to_float countries (row # in_list) reactor_list =
    (case getitem row 0 of
       Inl e \<Rightarrow> Inl e
     | Inr country \<Rightarrow>
         if py_upper country \<in> set countries then
           (case getitem row 3 of
              Inl e \<Rightarrow> Inl e
            | Inr capacity \<Rightarrow>
                (case getitem row 10 of
                   Inl e \<Rightarrow> Inl e
                 | Inr start_date \<Rightarrow>
                     (case confirm_deployment parse to_float start_date capacity of
                        Inl e \<Rightarrow> Inl e
                      | Inr deployed \<Rightarrow>
                          select_rows parse to_float countries in_list
                            (if deployed then reactor_list @ [row] else reactor_list))))
         else select_rows parse to_float countries in_list reactor_list)"

definition select_region ::
  "(pystr \<Rightarrow> datetime option) \<Rightarrow> (pystr \<Rightarrow> pyfloat option) \<Rightarrow> pystr list list \<Rightarrow> pystr \<Rightarrow>
   error + pystr list list" where
  "select_region parse to_float in_list region =
    (if py_upper region \<notin> set (map fst regions)
     then Inl (ValueError (region @ str ''is not a valid region''))
     else select_rows parse to_float (the (map_of regions (py_upper region))) in_list [])"

section \<open>Lifetime and build time\<close>

text \<open>
  \<^verbatim>\<open>get_lifetime\<close>. The shutdown date is parsed before the commercial date, as the
  subtraction evaluates its left operand first. The quotient is taken in exact
  arithmetic; the division of doubles in the source truncates to the same integer for
  every day count that two \<^verbatim>\<open>datetime\<close> values can be apart.
\<close>

definition get_lifetime :: "(pystr \<Rightarrow> datetime option) \<Rightarrow> pystr list \<Rightarrow> error + int" where
  "get_lifetime parse in_row =
    (case getitem in_row 10 of
       Inl e \<Rightarrow> Inl e
     | Inr comm_date \<Rightarrow>
         (case getitem in_row 11 of
            Inl e \<Rightarrow> Inl e
          | Inr shutdown_date \<Rightarrow>
              if py_strip shutdown_date = [] then Inr 720
              else
                (case parse shutdown_date of
                   None \<Rightarrow> Inl (ParserError shutdown_date)
                 | Some sd \<Rightarrow>
                     (case parse comm_date of
                        None \<Rightarrow> Inl (ParserError comm_date)
                      | Some cd \<Rightarrow>
                          Inr (py_trunc (real_of_int (timedelta_days sd cd) / (365 / 12)))))))"

text \<open>
  \<^verbatim>\<open>os.path.dirname\<close> of a POSIX path: everything up to the last slash, without that
  slash and the slashes before it unless the head consists of slashes only.
\<close>

definition dirname :: "pystr \<Rightarrow> pystr" where
  "dirname p =
    (let i = length p - length (takeWhile (\<lambda>c. c \<noteq> 47) (rev p));
         head = take i p
     in if head \<noteq> [] \<and> head \<noteq> replicate (length head) 47
        then rev (dropWhile (\<lambda>c. c = 47) (rev head))
        else head)"

text \<open>
  The final component of a path, \<^verbatim>\<open>os.path.basename\<close>: what follows the last slash. The
  script does not call it; it is what a file in a directory is named.
\<close>

definition final_component :: "pystr \<Rightarrow> pystr" where
  "final_component p = drop (length p - length (takeWhile (\<lambda>c. c \<noteq> 47) (rev p))) p"

text \<open>
  The file name that \<^verbatim>\<open>get_buildtime\<close> derives from a path \<open>reactor\<close> of \<open>path_list\<close>
  (\<^verbatim>\<open>path_list[index]\<close> is \<open>reactor\<close> itself), and its loop over the paths for one row.
\<close>

definition file_name :: "pystr \<Rightarrow> pystr" where
  "file_name reactor = py_replace (py_replace reactor (dirname reactor) []) (str ''/'') []"

definition path_loop ::
  "pystr list \<Rightarrow> int \<Rightarrow> pystr list \<Rightarrow> (pystr \<rightharpoonup> pystr \<times> int) \<Rightarrow> (pystr \<rightharpoonup> pystr \<times> int)" where
  "path_loop row delta path_list buildtime_dict =
    fold (\<lambda>reactor buildtime_dict.
            let name = py_replace (row ! 1) (str '' '') (str ''_'');
                country = row ! 0
            in if name @ str ''.xml'' = file_name reactor
               then buildtime_dict(name \<mapsto> (country, delta))
               else buildtime_dict)
         path_list buildtime_dict"

text \<open>
  The loop of \<^verbatim>\<open>get_buildtime\<close> over the rows and the function itself. \<^verbatim>\<open>row[10]\<close> is read
  first, so \<^verbatim>\<open>row[1]\<close> and \<^verbatim>\<open>row[0]\<close> exist where the inner loop reads them.
  \<open>start_year\<close> is an integer; the result is the dictionary.
\<close>

fun buildtime_rows ::
  "(pystr \<Rightarrow> datetime option) \<Rightarrow> int \<Rightarrow> pystr list \<Rightarrow> pystr list list \<Rightarrow>
   (pystr \<rightharpoonup> pystr \<times> int) \<Rightarrow> error + (pystr \<rightharpoonup> pystr \<times> int)" where
  "buildtime_rows parse start_year path_list [] buildtime_dict = Inr buildtime_dict"
| "buildtime_rows parse start_year path_list (row # in_list) buildtime_dict =
    (case getitem row 10 of
       Inl e \<Rightarrow> Inl e
     | Inr s \<Rightarrow>
         (case parse s of
            None \<Rightarrow> Inl (ParserError s)
          | Some comm_date \<Rightarrow>
              buildtime_rows parse start_year path_list in_list
                (path_loop row
                   ((year comm_date - start_year) * 12 + month comm_date
                      + py_round (real_of_int (day comm_date) / (365 / 12)))
                   path_list buildtime_dict)))"

definition get_buildtime ::
  "(pystr \<Rightarrow> datetime option) \<Rightarrow> pystr list list \<Rightarrow> int \<Rightarrow> pystr list \<Rightarrow>
   error + (pystr \<rightharpoonup> pystr \<times> int)" where
  "get_buildtime parse in_list start_year path_list =
    buildtime_rows parse start_year path_list in_list Map.empty"

section \<open>Sample tables\<close>

text \<open>
  A reactor table of thirteen columns, as \<^verbatim>\<open>import_pris\<close> needs before it inserts the two
  coordinate columns, with the columns the script reads by position: the country (0),
  the reactor's name (1), the type (2), the capacity (3), the commercial date (10) and
  the shutdown date (11). \<open>pris_row\<close> builds a row from these, the other cells empty.
\<close>

definition pris_columns :: "pystr list" where
  "pris_columns =
    [str ''Country'', str ''Unit'', str ''Type'', str ''Capacity'', str ''C4'', str ''C5'',
     str ''C6'', str ''C7'', str ''C8'', str ''C9'', str ''Commercial'', str ''Shutdown'',
     str ''C12'']"

definition pris_row :: "pystr \<Rightarrow> pystr \<Rightarrow> pystr \<Rightarrow> pystr \<Rightarrow> pystr \<Rightarrow> pystr \<Rightarrow> pystr list" where
  "pris_row country name rtype capacity commercial shutdown =
    [country, name, rtype, capacity, [], [], [], [], [], [], commercial, shutdown, []]"

text \<open>The hyphen, \<^verbatim>\<open>'-'\<close>.\<close>

abbreviation hyphen :: nat where "hyphen \<equiv> 45"

section \<open>Properties of the name sanitizers\<close>

text \<open>Rule sets that evaluate the sanitizers and the ratio on a given string.\<close>

lemmas pris_name_eval =
  sanitize_pris_name_def str_def py_lower_def lower_cp_def py_find_def starts_with_def
  is_int_def int_literal_def py_strip_def isspace_def is_digit_def slice_from_def slice_to_def

lemmas webscrape_name_eval =
  sanitize_webscrape_name_def blacklist_def str_def py_lower_def lower_cp_def py_replace_def
  starts_with_def py_strip_def isspace_def py_split_def

lemmas ratio_eval = fuzz_ratio_def lcs_length_def py_round_def

lemma str_hyphen: "str ''-'' = [hyphen]"
  by (simp add: str_def)

lemma find_at_single:
  "find_at s [d] k = (if d \<in> set s then int (k + length (takeWhile (\<lambda>c. c \<noteq> d) s)) else - 1)"
  by (induction s arbitrary: k) (auto simp: starts_with_def)

lemma py_find_single:
  "py_find s [d] = (if d \<in> set s then int (length (takeWhile (\<lambda>c. c \<noteq> d) s)) else - 1)"
  by (simp add: py_find_def find_at_single)

lemma is_int_single: "is_int [c] = is_digit c"
  by (auto simp: is_int_def int_literal_def py_strip_def isspace_def is_digit_def)

lemma lower_cp_nonempty: "lower_cp c \<noteq> []"
  by (simp add: lower_cp_def)

lemma lower_cp_hyphen: "hyphen \<in> set (lower_cp c) \<longleftrightarrow> c = hyphen"
  by (auto simp: lower_cp_def split: if_splits)

lemma lower_cp_digit: "is_digit (last (lower_cp c)) \<longleftrightarrow> is_digit c"
  by (auto simp: lower_cp_def is_digit_def split: if_splits)

lemma py_lower_hyphen: "hyphen \<in> set (py_lower s) \<longleftrightarrow> hyphen \<in> set s"
  by (induction s) (auto simp: py_lower_def lower_cp_hyphen)

lemma py_lower_Nil: "py_lower s = [] \<longleftrightarrow> s = []"
  by (cases s) (auto simp: py_lower_def lower_cp_nonempty)

lemma py_lower_last: "s \<noteq> [] \<Longrightarrow> last (py_lower s) = last (lower_cp (last s))"
proof (induction s)
  case Nil
  then show ?case by simp
next
  case (Cons c cs)
  show ?case
  proof (cases "cs = []")
    case True
    then show ?thesis by (simp add: py_lower_def)
  next
    case False
    then have "py_lower cs \<noteq> []" by (simp add: py_lower_Nil)
    then have "last (py_lower (c # cs)) = last (py_lower cs)"
      by (simp add: py_lower_def)
    with Cons False show ?thesis by simp
  qed
qed

lemma py_lower_last_digit:
  "s \<noteq> [] \<Longrightarrow> is_digit (last (py_lower s)) \<longleftrightarrow> is_digit (last s)"
  by (simp add: py_lower_last lower_cp_digit)

text \<open>
  Claim C8. \<^verbatim>\<open>sanitize_pris_name\<close> lower-cases its input. If the input contains a hyphen
  and its last code point is a digit, the result is the lower-cased name cut at the first
  hyphen when no second hyphen follows it, and otherwise cut at the index that is the
  first hyphen's position plus the offset of the second hyphen within the rest after the
  first. Every other name is returned lower-cased and otherwise unchanged. In particular
  \<^verbatim>\<open>OHI-1\<close> becomes \<^verbatim>\<open>ohi\<close>.
\<close>

theorem sanitize_pris_name_truncation:
  "sanitize_pris_name name =
     (let p = py_lower name;
          i = length (takeWhile (\<lambda>c. c \<noteq> hyphen) p);
          rest = drop (Suc i) p
      in if hyphen \<in> set name \<and> is_digit (last name) then
           (if hyphen \<in> set rest
            then take (i + length (takeWhile (\<lambda>c. c \<noteq> hyphen) rest)) p
            else take i p)
         else p)
   \<and> sanitize_pris_name (str ''OHI-1'') = str ''ohi''"
proof
  show "sanitize_pris_name (str ''OHI-1'') = str ''ohi''"
    by (simp add: sanitize_pris_name_def str_def py_lower_def lower_cp_def py_find_def
        starts_with_def is_int_def int_literal_def py_strip_def isspace_def is_digit_def
        slice_from_def slice_to_def)
next
  show "sanitize_pris_name name =
     (let p = py_lower name;
          i = length (takeWhile (\<lambda>c. c \<noteq> hyphen) p);
          rest = drop (Suc i) p
      in if hyphen \<in> set name \<and> is_digit (last name) then
           (if hyphen \<in> set rest
            then take (i + length (takeWhile (\<lambda>c. c \<noteq> hyphen) rest)) p
            else take i p)
         else p)"
  proof (cases "hyphen \<in> set name")
    case False
    then have "hyphen \<notin> set (py_lower name)" by (simp add: py_lower_hyphen)
    then show ?thesis
      using False by (simp add: sanitize_pris_name_def str_hyphen py_find_single Let_def)
  next
    case True
    then have ne: "name \<noteq> []" by auto
    have hp: "hyphen \<in> set (py_lower name)" using True by (simp add: py_lower_hyphen)
    have dig: "is_int [last (py_lower name)] = is_digit (last name)"
      using ne by (simp add: is_int_single py_lower_last_digit)
    have sf: "slice_from (py_lower name) (int (length (takeWhile (\<lambda>c. c \<noteq> hyphen) (py_lower name))) + 1)
        = drop (Suc (length (takeWhile (\<lambda>c. c \<noteq> hyphen) (py_lower name)))) (py_lower name)"
      by (simp add: slice_from_def nat_add_distrib Suc_nat_eq_nat_zadd1)
    show ?thesis
      using True hp dig
      by (simp add: sanitize_pris_name_def str_hyphen py_find_single Let_def sf slice_to_def
          nat_add_distrib)
  qed
qed

text \<open>
  With two hyphens the cut falls one code point before the second hyphen:
  \<^verbatim>\<open>SHIN-KORI-1\<close> has its first hyphen at 4 and the second at offset 4 of \<^verbatim>\<open>KORI-1\<close>.
\<close>

theorem sanitize_pris_name_truncation_witness:
  "sanitize_pris_name (str ''SHIN-KORI-1'') = str ''shin-kor''"
  using sanitize_pris_name_truncation [of "str ''SHIN-KORI-1''"]
  by (simp add: str_def py_lower_def lower_cp_def is_digit_def)

section \<open>Properties of the merge\<close>

subsection \<open>The table of the ratio\<close>

lemma lcs_Nil_right [simp]: "lcs xs [] = 0"
  by (cases xs) simp_all

lemma lcs_row_tails:
  "lcs_row x ys (map (lcs xs) (tails ys)) = map (lcs (x # xs)) (tails ys)"
proof (induction ys)
  case Nil
  then show ?case by simp
next
  case (Cons y ys)
  obtain t ts where t: "tails ys = t # ts" and hd: "t = ys"
    by (cases ys) simp_all
  from Cons show ?case
    by (simp add: t hd)
qed

lemma lcs_rows:
  "foldr (\<lambda>x prev. lcs_row x b prev) a (replicate (length b + 1) 0) = map (lcs a) (tails b)"
proof (induction a)
  case Nil
  show ?case by (induction b) simp_all
next
  case (Cons x a)
  then show ?case by (simp add: lcs_row_tails)
qed

text \<open>The table computes the length of a longest common subsequence.\<close>

lemma lcs_length_lcs: "lcs_length a b = lcs a b"
proof -
  have "hd (map (lcs a) (tails b)) = lcs a b"
    by (cases b) simp_all
  then show ?thesis
    unfolding lcs_length_def lcs_rows .
qed

subsection \<open>The loop body and the loops\<close>

lemma fold_cond_update:
  assumes "\<And>r. u (u r) = u r"
  shows "fold (\<lambda>kv r. if c kv then u r else r) xs r = (if list_ex c xs then u r else r)"
  by (induction xs arbitrary: r) (simp_all add: assms)

lemma edge_loop_if:
  "edge_loop ratio others w p web prs =
     (if list_ex (\<lambda>(other, val). 80 < ratio p (py_lower other) \<and> 75 < ratio w (py_lower val))
           others
      then prs[13 := geo_lat web, 14 := geo_long web] else prs)"
proof -
  define u where "u = (\<lambda>r::pystr list. r[13 := geo_lat web, 14 := geo_long web])"
  define c where
    "c = (\<lambda>(other, val). 80 < ratio p (py_lower other) \<and> 75 < ratio w (py_lower val))"
  have uu: "u (u r) = u r" for r
    by (simp add: u_def list_update_swap [of 13 14])
  have "(\<lambda>(other, val) prs.
            let edge_case_key = py_lower other;
                edge_case_value = py_lower val
            in if 80 < ratio p edge_case_key then
                 (if 75 < ratio w edge_case_value
                  then prs[13 := geo_lat web, 14 := geo_long web]
                  else prs)
               else prs) = (\<lambda>kv r. if c kv then u r else r)"
    unfolding u_def c_def Let_def by (intro ext) (simp split: prod.split)
  then have "edge_loop ratio others w p web prs = fold (\<lambda>kv r. if c kv then u r else r) others prs"
    unfolding edge_loop_def by (rule arg_cong)
  also have "\<dots> = (if list_ex c others then u prs else prs)"
    by (rule fold_cond_update [OF uu])
  finally show ?thesis
    unfolding u_def c_def .
qed

lemma merge_row_if:
  "merge_row ratio others web prs =
     (if matches ratio others web prs then prs[13 := geo_lat web, 14 := geo_long web] else prs)"
  by (simp add: merge_row_def matches_def edge_loop_if Let_def)

lemma matches_name: "prs ! 1 = prs' ! 1 \<Longrightarrow> matches ratio others web prs = matches ratio others web prs'"
  by (simp add: matches_def)

lemma matches_update:
  "matches ratio others web (prs[13 := a, 14 := b]) = matches ratio others web prs"
  by (rule matches_name) simp

lemma matches_direct:
  "78 < ratio (sanitize_webscrape_name (geo_name web)) (sanitize_pris_name (prs ! 1)) \<Longrightarrow>
   matches ratio others web prs"
  by (simp add: matches_def)

lemma not_matches_by_value:
  assumes "\<not> 78 < ratio (sanitize_webscrape_name (geo_name web)) (sanitize_pris_name (prs ! 1))"
    and "list_all (\<lambda>v. \<not> 75 < ratio (sanitize_webscrape_name (geo_name web)) v)
           (map (\<lambda>(other, val). py_lower val) others)"
  shows "\<not> matches ratio others web prs"
  using assms by (auto simp: matches_def list_all_iff list_ex_iff)

lemma fold_merge_row:
  "fold (merge_row ratio others) coords prs =
     (let ms = filter (\<lambda>web. matches ratio others web prs) coords
      in if ms = [] then prs else prs[13 := geo_lat (last ms), 14 := geo_long (last ms)])"
proof (induction coords rule: rev_induct)
  case Nil
  then show ?case by simp
next
  case (snoc web coords)
  have uu: "r[13 := a, 14 := b, 13 := c, 14 := d] = r[13 := c, 14 := d]"
    for r :: "pystr list" and a b c d
    by (simp add: list_update_swap [of 13 14])
  show ?case
    using snoc by (simp add: merge_row_if matches_update Let_def uu)
qed

text \<open>
  With views the loops leave in each row what the body makes of it for the scraped rows
  in turn; with copies they leave the frame as it is.
\<close>

lemma merge_loop_view:
  "merge_loop True ratio others coords prows = map (fold (merge_row ratio others) coords) prows"
  unfolding merge_loop_def row_after_def
  by (induction coords arbitrary: prows) (simp_all add: comp_def)

lemma merge_loop_copy: "merge_loop False ratio others coords prows = prows"
  unfolding merge_loop_def row_after_def
  by (induction coords arbitrary: prows) simp_all

subsection \<open>The inserted columns\<close>

lemma str_Latitude_Longitude: "str ''Longitude'' \<noteq> str ''Latitude''"
  by (simp add: str_def)

lemma import_pris_Inr:
  assumes "rectangular pris" and "13 \<le> length (columns pris)"
    and "str ''Latitude'' \<notin> set (columns pris)" and "str ''Longitude'' \<notin> set (columns pris)"
  shows "import_pris pris =
     Inr \<lparr>columns = take 13 (columns pris) @ [str ''Latitude'', str ''Longitude'']
                       @ drop 13 (columns pris),
          rows = map (\<lambda>r. take 13 r @ [[], []] @ drop 13 r) (rows pris)\<rparr>"
proof -
  let ?c1 = "take 13 (columns pris) @ [str ''Latitude''] @ drop 13 (columns pris)"
  have len: "13 \<le> length r" if "r \<in> set (rows pris)" for r
    using assms(1,2) that by (auto simp: rectangular_def list_all_iff)
  have notin: "str ''Longitude'' \<notin> set ?c1"
    using assms(4) str_Latitude_Longitude by (auto dest: in_set_takeD in_set_dropD)
  have cols: "take 14 ?c1 @ [str ''Longitude''] @ drop 14 ?c1 =
      take 13 (columns pris) @ [str ''Latitude'', str ''Longitude''] @ drop 13 (columns pris)"
    using assms(2) by simp
  have row: "take 14 (take 13 r @ [[]] @ drop 13 r) @ [[]] @ drop 14 (take 13 r @ [[]] @ drop 13 r)
      = take 13 r @ [[], []] @ drop 13 r" if "r \<in> set (rows pris)" for r :: "pystr list"
    using len [OF that] by simp
  have first: "insert_column 13 (str ''Latitude'') pris =
      Inr \<lparr>columns = ?c1, rows = map (\<lambda>r. take 13 r @ [[]] @ drop 13 r) (rows pris)\<rparr>"
    using assms(2,3) by (simp add: insert_column_def)
  have "insert_column 14 (str ''Longitude'')
          \<lparr>columns = ?c1, rows = map (\<lambda>r. take 13 r @ [[]] @ drop 13 r) (rows pris)\<rparr> =
      Inr \<lparr>columns = take 14 ?c1 @ [str ''Longitude''] @ drop 14 ?c1,
           rows = map (\<lambda>r. take 14 (take 13 r @ [[]] @ drop 13 r) @ [[]]
                            @ drop 14 (take 13 r @ [[]] @ drop 13 r)) (rows pris)\<rparr>"
    using notin assms(2) by (simp add: insert_column_def comp_def)
  also have "\<dots> = Inr \<lparr>columns = take 13 (columns pris) @ [str ''Latitude'', str ''Longitude'']
                       @ drop 13 (columns pris),
          rows = map (\<lambda>r. take 13 r @ [[], []] @ drop 13 r) (rows pris)\<rparr>"
    using cols row by (simp cong: map_cong)
  finally show ?thesis
    by (simp add: import_pris_def first)
qed

text \<open>
  The merge with views in closed form: every row gets its two empty cells, and then the
  coordinates of the last scraped row that matches it, if there is one. With copies the
  merge returns the imported frame.
\<close>

lemma merge_coordinates_closed_form:
  assumes "rectangular pris" and "13 \<le> length (columns pris)"
    and "str ''Latitude'' \<notin> set (columns pris)" and "str ''Longitude'' \<notin> set (columns pris)"
  shows "merge_coordinates True ratio pris coords =
     Inr \<lparr>columns = take 13 (columns pris) @ [str ''Latitude'', str ''Longitude'']
                       @ drop 13 (columns pris),
          rows = map (\<lambda>r. let ms = filter (\<lambda>web. matches ratio get_edge_cases web r) coords
                           in if ms = [] then take 13 r @ [[], []] @ drop 13 r
                              else take 13 r @ [geo_lat (last ms), geo_long (last ms)] @ drop 13 r)
                     (rows pris)\<rparr>"
proof -
  have len: "13 \<le> length r" if "r \<in> set (rows pris)" for r
    using assms(1,2) that by (auto simp: rectangular_def list_all_iff)
  have one: "fold (merge_row ratio get_edge_cases) coords (take 13 r @ [[], []] @ drop 13 r) =
      (let ms = filter (\<lambda>web. matches ratio get_edge_cases web r) coords
       in if ms = [] then take 13 r @ [[], []] @ drop 13 r
          else take 13 r @ [geo_lat (last ms), geo_long (last ms)] @ drop 13 r)"
    if "r \<in> set (rows pris)" for r
  proof -
    define r0 where "r0 = take 13 r @ [[], []] @ drop 13 r"
    have l: "13 \<le> length r" by (rule len [OF that])
    then have name: "r0 ! 1 = r ! 1"
      by (simp add: r0_def nth_append)
    have m: "(\<lambda>web. matches ratio get_edge_cases web r0) = (\<lambda>web. matches ratio get_edge_cases web r)"
      using matches_name [OF name] by (simp add: fun_eq_iff)
    have upd: "r0[13 := a, 14 := b] = take 13 r @ [a, b] @ drop 13 r" for a b
      using l by (simp add: r0_def list_update_append)
    have "fold (merge_row ratio get_edge_cases) coords r0 =
      (let ms = filter (\<lambda>web. matches ratio get_edge_cases web r0) coords
       in if ms = [] then r0 else r0[13 := geo_lat (last ms), 14 := geo_long (last ms)])"
      by (rule fold_merge_row)
    also have "\<dots> = (let ms = filter (\<lambda>web. matches ratio get_edge_cases web r) coords
       in if ms = [] then r0 else take 13 r @ [geo_lat (last ms), geo_long (last ms)] @ drop 13 r)"
      unfolding m upd ..
    finally show ?thesis
      unfolding r0_def .
  qed
  show ?thesis
    using one
    by (simp add: merge_coordinates_def import_pris_Inr [OF assms] merge_loop_view cong: map_cong)
qed

lemma merge_coordinates_copy: "merge_coordinates False ratio pris coords = import_pris pris"
  by (simp add: merge_coordinates_def merge_loop_copy split: sum.splits)

lemma inserted_cells:
  assumes "13 \<le> length r"
  shows "(take 13 r @ [a, b] @ drop 13 r) ! 13 = a" and "(take 13 r @ [a, b] @ drop 13 r) ! 14 = b"
  using assms by (simp_all add: nth_append)

subsection \<open>Which rows are assigned\<close>

text \<open>
  Claim C2. For a scraped row and a reactor row the loop body assigns the scraped
  latitude and longitude to the row exactly when the ratio of the sanitized scraped name
  and the sanitized reactor name exceeds 78, or else some entry of the edge-case table
  has a ratio above 80 between the sanitized reactor name and its lower-cased key and a
  ratio above 75 between the sanitized scraped name and its lower-cased value; otherwise
  the row is left as it is. The two loops run this body on the Series of every row for
  every scraped row, in the order of the scraped rows; the frame holds the outcome when
  the Series are views, and is left as it was when they are copies.
\<close>

theorem merge_row_assigns_iff:
  "merge_row ratio get_edge_cases web prs =
     (if 78 < ratio (sanitize_webscrape_name (geo_name web)) (sanitize_pris_name (prs ! 1)) \<or>
         (\<exists>(other, val) \<in> set get_edge_cases.
             80 < ratio (sanitize_pris_name (prs ! 1)) (py_lower other) \<and>
             75 < ratio (sanitize_webscrape_name (geo_name web)) (py_lower val))
      then prs[13 := geo_lat web, 14 := geo_long web] else prs)
   \<and> merge_loop view ratio get_edge_cases coords prows =
       (if view then map (fold (merge_row ratio get_edge_cases) coords) prows else prows)"
  by (simp add: merge_row_if matches_def list_ex_iff merge_loop_view merge_loop_copy)

text \<open>
  The reactor \<^verbatim>\<open>OHI-1\<close> and the scraped plant name of the first table entry (U+014C, then
  \<^verbatim>\<open>i Nuclear Power Plant\<close>): the sanitized names have ratio 40, and the entry
  \<^verbatim>\<open>OHI-\<close> assigns the coordinates.
\<close>

theorem merge_row_assigns_iff_witness:
  "merge_row fuzz_ratio get_edge_cases
     \<lparr>geo_name = 332 # str ''i Nuclear Power Plant'', geo_long = str ''135.65'',
      geo_lat = str ''35.54''\<rparr>
     (pris_row (str ''JAPAN'') (str ''OHI-1'') (str ''PWR'') (str ''1120'') [] [] @ [[], []])
   = pris_row (str ''JAPAN'') (str ''OHI-1'') (str ''PWR'') (str ''1120'') [] []
       @ [str ''35.54'', str ''135.65'']"
proof -
  let ?web = "\<lparr>geo_name = 332 # str ''i Nuclear Power Plant'', geo_long = str ''135.65'',
      geo_lat = str ''35.54''\<rparr>"
  let ?prs = "pris_row (str ''JAPAN'') (str ''OHI-1'') (str ''PWR'') (str ''1120'') [] [] @ [[], []]"
  have s1: "sanitize_webscrape_name (geo_name ?web) = [333, 105]"
    by (simp add: webscrape_name_eval)
  have s2: "sanitize_pris_name (?prs ! 1) = [111, 104, 105]"
    by (simp add: pris_row_def pris_name_eval)
  have mem: "(str ''OHI-'', 332 # str ''i'') \<in> set get_edge_cases"
    by (simp add: get_edge_cases_def)
  have k: "py_lower (str ''OHI-'') = [111, 104, 105, 45]"
    and v: "py_lower (332 # str ''i'') = [333, 105]"
    by (simp_all add: str_def py_lower_def lower_cp_def)
  have r1: "80 < fuzz_ratio [111, 104, 105] [111, 104, 105, 45]"
    by (simp add: ratio_eval)
  have r2: "75 < fuzz_ratio [333, 105] [333, 105]"
    by (simp add: ratio_eval)
  have inner: "80 < fuzz_ratio (sanitize_pris_name (?prs ! 1)) (py_lower (str ''OHI-'')) \<and>
      75 < fuzz_ratio (sanitize_webscrape_name (geo_name ?web)) (py_lower (332 # str ''i''))"
    unfolding s1 s2 k v using r1 r2 by (rule conjI)
  have cond: "78 < fuzz_ratio (sanitize_webscrape_name (geo_name ?web)) (sanitize_pris_name (?prs ! 1)) \<or>
         (\<exists>(other, val) \<in> set get_edge_cases.
             80 < fuzz_ratio (sanitize_pris_name (?prs ! 1)) (py_lower other) \<and>
             75 < fuzz_ratio (sanitize_webscrape_name (geo_name ?web)) (py_lower val))"
    by (rule disjI2, rule bexI [OF _ mem]) (simp only: prod.case inner)
  have "merge_row fuzz_ratio get_edge_cases ?web ?prs = ?prs[13 := geo_lat ?web, 14 := geo_long ?web]"
    using merge_row_assigns_iff [of fuzz_ratio ?web ?prs, THEN conjunct1] cond
    by (simp only: if_True)
  then show ?thesis
    by (simp add: pris_row_def)
qed

subsection \<open>What views would write\<close>

text \<open>
  If the Series are views, the coordinate cells of a reactor row end up with the values
  of the last scraped row, in iteration order, that matches the row; a row that no
  scraped row matches keeps its two empty cells, and exchanging two matching scraped
  rows with different coordinates changes the result.
\<close>

lemma view_last_write_wins:
  assumes "rectangular pris" and "13 \<le> length (columns pris)"
    and "str ''Latitude'' \<notin> set (columns pris)" and "str ''Longitude'' \<notin> set (columns pris)"
    and "i < length (rows pris)"
  shows "\<exists>out. merge_coordinates True ratio pris coords = Inr out \<and>
      length (rows out) = length (rows pris) \<and>
      (let ms = filter (\<lambda>web. matches ratio get_edge_cases web (rows pris ! i)) coords
       in if ms = [] then rows out ! i ! 13 = [] \<and> rows out ! i ! 14 = []
          else rows out ! i ! 13 = geo_lat (last ms) \<and> rows out ! i ! 14 = geo_long (last ms))
      \<and> (\<forall>g1 g2. matches ratio get_edge_cases g1 (rows pris ! i) \<and>
            matches ratio get_edge_cases g2 (rows pris ! i) \<and>
            (geo_lat g1 \<noteq> geo_lat g2 \<or> geo_long g1 \<noteq> geo_long g2) \<longrightarrow>
            merge_coordinates True ratio pris [g1, g2] \<noteq> merge_coordinates True ratio pris [g2, g1])"
proof -
  let ?r = "rows pris ! i"
  let ?cell = "\<lambda>cs. let ms = filter (\<lambda>web. matches ratio get_edge_cases web ?r) cs
                   in if ms = [] then take 13 ?r @ [[], []] @ drop 13 ?r
                      else take 13 ?r @ [geo_lat (last ms), geo_long (last ms)] @ drop 13 ?r"
  have len: "13 \<le> length ?r"
    using assms(1,2,5) by (auto simp: rectangular_def list_all_iff)
  have row: "\<exists>out. merge_coordinates True ratio pris cs = Inr out \<and>
      length (rows out) = length (rows pris) \<and> rows out ! i = ?cell cs" for cs
    using assms(5) by (simp add: merge_coordinates_closed_form [OF assms(1-4)])
  from row [of coords] obtain out where out: "merge_coordinates True ratio pris coords = Inr out"
    "length (rows out) = length (rows pris)" "rows out ! i = ?cell coords"
    by blast
  have cells: "(let ms = filter (\<lambda>web. matches ratio get_edge_cases web ?r) coords
       in if ms = [] then rows out ! i ! 13 = [] \<and> rows out ! i ! 14 = []
          else rows out ! i ! 13 = geo_lat (last ms) \<and> rows out ! i ! 14 = geo_long (last ms))"
    unfolding out(3) Let_def using inserted_cells [OF len] by simp
  have swap: "merge_coordinates True ratio pris [g1, g2] \<noteq> merge_coordinates True ratio pris [g2, g1]"
    if m: "matches ratio get_edge_cases g1 ?r" "matches ratio get_edge_cases g2 ?r"
      and d: "geo_lat g1 \<noteq> geo_lat g2 \<or> geo_long g1 \<noteq> geo_long g2" for g1 g2
  proof
    assume eq: "merge_coordinates True ratio pris [g1, g2] = merge_coordinates True ratio pris [g2, g1]"
    from row [of "[g1, g2]"] obtain o1 where o1: "merge_coordinates True ratio pris [g1, g2] = Inr o1"
      "rows o1 ! i = ?cell [g1, g2]" by blast
    from row [of "[g2, g1]"] obtain o2 where o2: "merge_coordinates True ratio pris [g2, g1] = Inr o2"
      "rows o2 ! i = ?cell [g2, g1]" by blast
    from eq o1(1) o2(1) have "o1 = o2" by simp
    with o1(2) o2(2) have "?cell [g1, g2] = ?cell [g2, g1]" by simp
    with m have "take 13 ?r @ [geo_lat g2, geo_long g2] @ drop 13 ?r =
        take 13 ?r @ [geo_lat g1, geo_long g1] @ drop 13 ?r"
      by (simp add: Let_def)
    with d show False by simp
  qed
  show ?thesis
    using out(1,2) cells swap by blast
qed

text \<open>
  If the Series are views and exactly one pair of a scraped row and a reactor row
  satisfies the match condition, in a table of three reactor rows and two scraped rows,
  that reactor row gets the coordinates and the other two keep their empty cells.
\<close>

lemma view_single_match:
  assumes "rectangular pris" and "13 \<le> length (columns pris)"
    and "str ''Latitude'' \<notin> set (columns pris)" and "str ''Longitude'' \<notin> set (columns pris)"
    and "length (rows pris) = 3" and "length coords = 2"
    and "i < 3" and "j < 2"
    and "\<forall>k<3. \<forall>l<2. matches ratio get_edge_cases (coords ! l) (rows pris ! k) \<longleftrightarrow> k = i \<and> l = j"
  shows "\<exists>out. merge_coordinates True ratio pris coords = Inr out \<and> length (rows out) = 3 \<and>
     (\<forall>k<3. if k = i
             then rows out ! k ! 13 = geo_lat (coords ! j) \<and>
                  rows out ! k ! 14 = geo_long (coords ! j)
             else rows out ! k ! 13 = [] \<and> rows out ! k ! 14 = [])"
proof -
  obtain c0 c1 where coords: "coords = [c0, c1]"
    using assms(6) by (auto simp: length_Suc_conv numeral_2_eq_2)
  have len: "13 \<le> length (rows pris ! k)" if "k < 3" for k
    using assms(1,2,5) that by (auto simp: rectangular_def list_all_iff)
  have ms: "filter (\<lambda>web. matches ratio get_edge_cases web (rows pris ! k)) coords =
      (if k = i then [coords ! j] else [])" if "k < 3" for k
  proof -
    have "matches ratio get_edge_cases c0 (rows pris ! k) \<longleftrightarrow> k = i \<and> j = 0"
      using assms(9) [rule_format, of k 0] that coords by auto
    moreover have "matches ratio get_edge_cases c1 (rows pris ! k) \<longleftrightarrow> k = i \<and> j = 1"
      using assms(9) [rule_format, of k 1] that coords by auto
    ultimately show ?thesis
      using assms(8) coords by (auto simp: less_2_cases_iff)
  qed
  define f where "f = (\<lambda>r. let ms = filter (\<lambda>web. matches ratio get_edge_cases web r) coords
      in if ms = [] then take 13 r @ [[], []] @ drop 13 r
         else take 13 r @ [geo_lat (last ms), geo_long (last ms)] @ drop 13 r)"
  have fk: "f (rows pris ! k) =
      (if k = i
       then take 13 (rows pris ! k) @ [geo_lat (coords ! j), geo_long (coords ! j)]
              @ drop 13 (rows pris ! k)
       else take 13 (rows pris ! k) @ [[], []] @ drop 13 (rows pris ! k))" if "k < 3" for k
    unfolding f_def ms [OF that] by (simp add: Let_def)
  define rs where "rs = map f (rows pris)"
  have rs_nth: "rs ! k = f (rows pris ! k)" if "k < 3" for k
    using that assms(5) by (simp add: rs_def)
  have hit: "rs ! i ! 13 = geo_lat (coords ! j) \<and> rs ! i ! 14 = geo_long (coords ! j)"
    unfolding rs_nth [OF assms(7)] fk [OF assms(7)]
    using inserted_cells [OF len [OF assms(7)]] by simp
  have miss: "rs ! k ! 13 = [] \<and> rs ! k ! 14 = []" if "k < 3" and "k \<noteq> i" for k
    unfolding rs_nth [OF that(1)] fk [OF that(1)]
    using inserted_cells [OF len [OF that(1)]] that(2) by simp
  have cell: "\<forall>k<3. if k = i
      then rs ! k ! 13 = geo_lat (coords ! j) \<and> rs ! k ! 14 = geo_long (coords ! j)
      else rs ! k ! 13 = [] \<and> rs ! k ! 14 = []"
    using hit miss by simp
  have "merge_coordinates True ratio pris coords =
      Inr \<lparr>columns = take 13 (columns pris) @ [str ''Latitude'', str ''Longitude'']
                       @ drop 13 (columns pris),
           rows = rs\<rparr>"
    unfolding rs_def f_def by (rule merge_coordinates_closed_form [OF assms(1-4)])
  moreover have "length rs = 3"
    by (simp add: rs_def assms(5))
  ultimately show ?thesis
    using cell by simp
qed

lemma lowered_values:
  "map (\<lambda>(other, val). py_lower val) get_edge_cases =
    [[333, 105],
     [97, 115, 99, 243],
     [114, 105, 118, 110, 101],
     [107, 111, 114, 105],
     [97, 114, 107, 97, 110, 115, 97, 115, 32, 111, 110, 101],
     [121, 101, 111, 110, 103, 103, 119, 97, 110, 103],
     [101, 110, 114, 105, 99, 111, 32, 102, 101, 114, 109, 105],
     [107, 97, 108, 105, 110, 105, 110, 103, 114, 97, 100],
     [100, 111, 110, 97, 108, 100, 32, 99, 46, 32, 99, 111, 111, 107],
     [101, 100, 119, 105, 110, 32, 105, 46, 32, 104, 97, 116, 99, 104],
     [115, 104, 101, 97, 114, 111, 110, 32, 104, 97, 114, 114, 105, 115],
     [119, 111, 108, 115, 101, 111, 110, 103],
     [115, 97, 105, 110, 116, 45, 97, 108, 98, 97, 110],
     [108, 97, 115, 97, 108, 108, 101, 32, 99, 111, 117, 110, 116, 121],
     [122, 97, 112, 111, 114, 105, 122, 104, 122, 104, 121, 97],
     [104, 46, 32, 98, 46, 32, 114, 111, 98, 105, 110, 115, 111, 110],
     [118, 105, 114, 103, 105, 108, 32, 99, 46, 32, 115, 117, 109, 109, 101, 114],
     [106, 111, 115, 101, 112, 104, 32, 109, 46, 32, 102, 97, 114, 108, 101, 121],
     [115, 97, 105, 110, 116, 45, 108, 97, 117, 114, 101, 110, 116],
     [99, 111, 110, 110, 101, 99, 116, 105, 99, 117, 116, 49, 32, 121, 97, 110, 107, 101, 101],
     [106, 97, 109, 101, 115, 32, 97, 46, 32, 102, 105, 116, 122, 112, 97, 116, 114, 105, 99, 107],
     [104, 105, 103, 97, 115, 104, 105, 100, 333, 114, 105]]"
  by (simp add: get_edge_cases_def str_def py_lower_def lower_cp_def)

section \<open>What the merge writes to the reactor file\<close>

text \<open>
  Claim C7 (a reactor matched by several scraped rows holds, in the written file, the
  coordinates of the last of them in iteration order), and the docstring of
  \<^verbatim>\<open>merge_coordinates\<close>, which says that the function writes the coordinates to the
  matching reactors of the reactor file. The reactor file has the one row
  \<^verbatim>\<open>JAPAN, ABC, PWR, 900\<close>, and the scraped rows \<^verbatim>\<open>abc\<close> (longitude 1, latitude 2) and
  \<^verbatim>\<open>ABC Power Plant\<close> (longitude 3, latitude 4) both match it. The capacity column is
  numeric, so the Series are copies. With copies, whatever the table and the scraped
  rows, the function returns the frame as \<^verbatim>\<open>import_pris\<close> made it: here the written row
  has two empty coordinate cells, in either order of the two scraped rows. With views the
  latitude would be the \<^verbatim>\<open>4\<close> of the later row, and the \<^verbatim>\<open>2\<close> of the other row once the two
  are exchanged, as the claim says.
\<close>

theorem merge_coordinates_last_write_lost:
  "merge_coordinates False ratio pris coords = import_pris pris
   \<and> matches fuzz_ratio get_edge_cases
        \<lparr>geo_name = str ''abc'', geo_long = str ''1'', geo_lat = str ''2''\<rparr>
        (pris_row (str ''JAPAN'') (str ''ABC'') (str ''PWR'') (str ''900'') [] [])
   \<and> matches fuzz_ratio get_edge_cases
        \<lparr>geo_name = str ''ABC Power Plant'', geo_long = str ''3'', geo_lat = str ''4''\<rparr>
        (pris_row (str ''JAPAN'') (str ''ABC'') (str ''PWR'') (str ''900'') [] [])
   \<and> merge_coordinates False fuzz_ratio
        \<lparr>columns = pris_columns,
         rows = [pris_row (str ''JAPAN'') (str ''ABC'') (str ''PWR'') (str ''900'') [] []]\<rparr>
        [\<lparr>geo_name = str ''abc'', geo_long = str ''1'', geo_lat = str ''2''\<rparr>,
         \<lparr>geo_name = str ''ABC Power Plant'', geo_long = str ''3'', geo_lat = str ''4''\<rparr>]
       = Inr \<lparr>columns = pris_columns @ [str ''Latitude'', str ''Longitude''],
              rows = [pris_row (str ''JAPAN'') (str ''ABC'') (str ''PWR'') (str ''900'') [] []
                      @ [[], []]]\<rparr>
   \<and> merge_coordinates False fuzz_ratio
        \<lparr>columns = pris_columns,
         rows = [pris_row (str ''JAPAN'') (str ''ABC'') (str ''PWR'') (str ''900'') [] []]\<rparr>
        [\<lparr>geo_name = str ''ABC Power Plant'', geo_long = str ''3'', geo_lat = str ''4''\<rparr>,
         \<lparr>geo_name = str ''abc'', geo_long = str ''1'', geo_lat = str ''2''\<rparr>]
       = Inr \<lparr>columns = pris_columns @ [str ''Latitude'', str ''Longitude''],
              rows = [pris_row (str ''JAPAN'') (str ''ABC'') (str ''PWR'') (str ''900'') [] []
                      @ [[], []]]\<rparr>
   \<and> rows (projr (merge_coordinates True fuzz_ratio
        \<lparr>columns = pris_columns,
         rows = [pris_row (str ''JAPAN'') (str ''ABC'') (str ''PWR'') (str ''900'') [] []]\<rparr>
        [\<lparr>geo_name = str ''abc'', geo_long = str ''1'', geo_lat = str ''2''\<rparr>,
         \<lparr>geo_name = str ''ABC Power Plant'', geo_long = str ''3'', geo_lat = str ''4''\<rparr>]))
       ! 0 ! 13 = str ''4''
   \<and> rows (projr (merge_coordinates True fuzz_ratio
        \<lparr>columns = pris_columns,
         rows = [pris_row (str ''JAPAN'') (str ''ABC'') (str ''PWR'') (str ''900'') [] []]\<rparr>
        [\<lparr>geo_name = str ''ABC Power Plant'', geo_long = str ''3'', geo_lat = str ''4''\<rparr>,
         \<lparr>geo_name = str ''abc'', geo_long = str ''1'', geo_lat = str ''2''\<rparr>]))
       ! 0 ! 13 = str ''2''"
proof -
  let ?row = "pris_row (str ''JAPAN'') (str ''ABC'') (str ''PWR'') (str ''900'') [] []"
  let ?pris = "\<lparr>columns = pris_columns, rows = [?row]\<rparr>"
  let ?g1 = "\<lparr>geo_name = str ''abc'', geo_long = str ''1'', geo_lat = str ''2''\<rparr>"
  let ?g2 = "\<lparr>geo_name = str ''ABC Power Plant'', geo_long = str ''3'', geo_lat = str ''4''\<rparr>"
  have wf: "rectangular ?pris" "13 \<le> length (columns ?pris)"
    "str ''Latitude'' \<notin> set (columns ?pris)" "str ''Longitude'' \<notin> set (columns ?pris)"
    by (simp_all add: rectangular_def pris_columns_def pris_row_def str_def)
  have p: "sanitize_pris_name (?row ! 1) = [97, 98, 99]"
    by (simp add: pris_row_def pris_name_eval)
  have w1: "sanitize_webscrape_name (geo_name ?g1) = [97, 98, 99]"
    and w2: "sanitize_webscrape_name (geo_name ?g2) = [97, 98, 99]"
    by (simp_all add: webscrape_name_eval)
  have r: "78 < fuzz_ratio [97, 98, 99] [97, 98, 99]"
    by (simp add: ratio_eval)
  have m1: "matches fuzz_ratio get_edge_cases ?g1 ?row"
    by (rule matches_direct) (simp only: p w1 r)
  have m2: "matches fuzz_ratio get_edge_cases ?g2 ?row"
    by (rule matches_direct) (simp only: p w2 r)
  have copy: "merge_coordinates False fuzz_ratio ?pris cs =
      Inr \<lparr>columns = pris_columns @ [str ''Latitude'', str ''Longitude''],
           rows = [?row @ [[], []]]\<rparr>" for cs
    by (simp add: merge_coordinates_copy import_pris_Inr [OF wf])
      (simp add: pris_columns_def pris_row_def)
  have v12: "rows (projr (merge_coordinates True fuzz_ratio ?pris [?g1, ?g2])) ! 0 ! 13 = str ''4''"
    by (simp add: merge_coordinates_closed_form [OF wf] m1 m2 Let_def) (simp add: pris_row_def)
  have v21: "rows (projr (merge_coordinates True fuzz_ratio ?pris [?g2, ?g1])) ! 0 ! 13 = str ''2''"
    by (simp add: merge_coordinates_closed_form [OF wf] m1 m2 Let_def) (simp add: pris_row_def)
  show ?thesis
    using merge_coordinates_copy [of ratio pris coords] m1 m2 copy [of "[?g1, ?g2]"]
      copy [of "[?g2, ?g1]"] v12 v21
    by (simp only: simp_thms)
qed

text \<open>
  Claim C1 (a reactor whose name a scraped row matches gets that row's coordinates in
  the written file, and no other reactor does), and the same docstring. The reactor file
  has the rows \<^verbatim>\<open>BRUCE-1\<close>, \<^verbatim>\<open>OHI-1\<close> and \<^verbatim>\<open>TIHANGE-1\<close>, the scraped rows are \<^verbatim>\<open>BRUCE-1\<close> and
  \<^verbatim>\<open>Doel\<close>; the scraped \<^verbatim>\<open>BRUCE-1\<close> matches the first reactor row. The capacity column is
  numeric, so the Series are copies: the written frame is the imported one, and the
  coordinate cells of all three rows, the matched one among them, are empty. With views
  the first row would hold the latitude \<^verbatim>\<open>44.33\<close> and the longitude \<^verbatim>\<open>-81.6\<close> and the other
  two rows would keep their empty cells, as the claim says.
\<close>

theorem merge_coordinates_exact_name_unwritten:
  "matches fuzz_ratio get_edge_cases
      \<lparr>geo_name = str ''BRUCE-1'', geo_long = str ''-81.6'', geo_lat = str ''44.33''\<rparr>
      (pris_row (str ''CANADA'') (str ''BRUCE-1'') (str ''PHWR'') (str ''760'') [] [])
   \<and> merge_coordinates False fuzz_ratio
      \<lparr>columns = pris_columns,
       rows = [pris_row (str ''CANADA'') (str ''BRUCE-1'') (str ''PHWR'') (str ''760'') [] [],
               pris_row (str ''JAPAN'') (str ''OHI-1'') (str ''PWR'') (str ''1120'') [] [],
               pris_row (str ''BELGIUM'') (str ''TIHANGE-1'') (str ''PWR'') (str ''962'') [] []]\<rparr>
      [\<lparr>geo_name = str ''BRUCE-1'', geo_long = str ''-81.6'', geo_lat = str ''44.33''\<rparr>,
       \<lparr>geo_name = str ''Doel'', geo_long = str ''4.26'', geo_lat = str ''51.32''\<rparr>]
     = Inr \<lparr>columns = pris_columns @ [str ''Latitude'', str ''Longitude''],
            rows = map (\<lambda>r. r @ [[], []])
              [pris_row (str ''CANADA'') (str ''BRUCE-1'') (str ''PHWR'') (str ''760'') [] [],
               pris_row (str ''JAPAN'') (str ''OHI-1'') (str ''PWR'') (str ''1120'') [] [],
               pris_row (str ''BELGIUM'') (str ''TIHANGE-1'') (str ''PWR'') (str ''962'') [] []]\<rparr>
   \<and> map (\<lambda>r. (r ! 13, r ! 14)) (map (\<lambda>r. r @ [[], []])
              [pris_row (str ''CANADA'') (str ''BRUCE-1'') (str ''PHWR'') (str ''760'') [] [],
               pris_row (str ''JAPAN'') (str ''OHI-1'') (str ''PWR'') (str ''1120'') [] [],
               pris_row (str ''BELGIUM'') (str ''TIHANGE-1'') (str ''PWR'') (str ''962'') [] []])
     = [([], []), ([], []), ([], [])]
   \<and> (\<exists>out. merge_coordinates True fuzz_ratio
      \<lparr>columns = pris_columns,
       rows = [pris_row (str ''CANADA'') (str ''BRUCE-1'') (str ''PHWR'') (str ''760'') [] [],
               pris_row (str ''JAPAN'') (str ''OHI-1'') (str ''PWR'') (str ''1120'') [] [],
               pris_row (str ''BELGIUM'') (str ''TIHANGE-1'') (str ''PWR'') (str ''962'') [] []]\<rparr>
      [\<lparr>geo_name = str ''BRUCE-1'', geo_long = str ''-81.6'', geo_lat = str ''44.33''\<rparr>,
       \<lparr>geo_name = str ''Doel'', geo_long = str ''4.26'', geo_lat = str ''51.32''\<rparr>] = Inr out \<and>
     map (\<lambda>r. (r ! 13, r ! 14)) (rows out) =
       [(str ''44.33'', str ''-81.6''), ([], []), ([], [])])"
proof -
  let ?pris = "\<lparr>columns = pris_columns,
       rows = [pris_row (str ''CANADA'') (str ''BRUCE-1'') (str ''PHWR'') (str ''760'') [] [],
               pris_row (str ''JAPAN'') (str ''OHI-1'') (str ''PWR'') (str ''1120'') [] [],
               pris_row (str ''BELGIUM'') (str ''TIHANGE-1'') (str ''PWR'') (str ''962'') [] []]\<rparr>"
  let ?g0 = "\<lparr>geo_name = str ''BRUCE-1'', geo_long = str ''-81.6'', geo_lat = str ''44.33''\<rparr>"
  let ?g1 = "\<lparr>geo_name = str ''Doel'', geo_long = str ''4.26'', geo_lat = str ''51.32''\<rparr>"
  let ?bruce = "[98, 114, 117, 99, 101] :: pystr"
  let ?ohi = "[111, 104, 105] :: pystr"
  let ?tihange = "[116, 105, 104, 97, 110, 103, 101] :: pystr"
  let ?bruce1 = "[98, 114, 117, 99, 101, 45, 49] :: pystr"
  let ?doel = "[100, 111, 101, 108] :: pystr"
  have wf: "rectangular ?pris" "13 \<le> length (columns ?pris)"
    "str ''Latitude'' \<notin> set (columns ?pris)" "str ''Longitude'' \<notin> set (columns ?pris)"
    "length (rows ?pris) = 3" "length [?g0, ?g1] = 2" "(0::nat) < 3" "(0::nat) < 2"
    by (simp_all add: rectangular_def pris_columns_def pris_row_def str_def)
  have p0: "sanitize_pris_name (rows ?pris ! 0 ! 1) = ?bruce"
    and p1: "sanitize_pris_name (rows ?pris ! 1 ! 1) = ?ohi"
    and p2: "sanitize_pris_name (rows ?pris ! 2 ! 1) = ?tihange"
    by (simp_all add: pris_row_def pris_name_eval)
  have w0: "sanitize_webscrape_name (geo_name ?g0) = ?bruce1"
    and w1: "sanitize_webscrape_name (geo_name ?g1) = ?doel"
    by (simp_all add: webscrape_name_eval)
  have r00: "78 < fuzz_ratio ?bruce1 ?bruce"
    and r01: "\<not> 78 < fuzz_ratio ?bruce1 ?ohi"
    and r02: "\<not> 78 < fuzz_ratio ?bruce1 ?tihange"
    and r10: "\<not> 78 < fuzz_ratio ?doel ?bruce"
    and r11: "\<not> 78 < fuzz_ratio ?doel ?ohi"
    and r12: "\<not> 78 < fuzz_ratio ?doel ?tihange"
    by (simp_all add: ratio_eval)
  have v0: "list_all (\<lambda>v. \<not> 75 < fuzz_ratio (sanitize_webscrape_name (geo_name ?g0)) v)
      (map (\<lambda>(other, val). py_lower val) get_edge_cases)"
    unfolding w0 lowered_values by (simp add: ratio_eval)
  have v1: "list_all (\<lambda>v. \<not> 75 < fuzz_ratio (sanitize_webscrape_name (geo_name ?g1)) v)
      (map (\<lambda>(other, val). py_lower val) get_edge_cases)"
    unfolding w1 lowered_values by (simp add: ratio_eval)
  have m00: "matches fuzz_ratio get_edge_cases ?g0 (rows ?pris ! 0)"
    by (rule matches_direct) (simp only: p0 w0 r00)
  have m01: "\<not> matches fuzz_ratio get_edge_cases ?g0 (rows ?pris ! 1)"
    by (rule not_matches_by_value [where ratio = fuzz_ratio and others = get_edge_cases, OF _ v0]) (simp only: p1 w0 r01 not_False_eq_True)
  have m02: "\<not> matches fuzz_ratio get_edge_cases ?g0 (rows ?pris ! 2)"
    by (rule not_matches_by_value [where ratio = fuzz_ratio and others = get_edge_cases, OF _ v0]) (simp only: p2 w0 r02 not_False_eq_True)
  have m10: "\<not> matches fuzz_ratio get_edge_cases ?g1 (rows ?pris ! 0)"
    by (rule not_matches_by_value [where ratio = fuzz_ratio and others = get_edge_cases, OF _ v1]) (simp only: p0 w1 r10 not_False_eq_True)
  have m11: "\<not> matches fuzz_ratio get_edge_cases ?g1 (rows ?pris ! 1)"
    by (rule not_matches_by_value [where ratio = fuzz_ratio and others = get_edge_cases, OF _ v1]) (simp only: p1 w1 r11 not_False_eq_True)
  have m12: "\<not> matches fuzz_ratio get_edge_cases ?g1 (rows ?pris ! 2)"
    by (rule not_matches_by_value [where ratio = fuzz_ratio and others = get_edge_cases, OF _ v1]) (simp only: p2 w1 r12 not_False_eq_True)
  have one: "\<forall>k<3. \<forall>l<2. matches fuzz_ratio get_edge_cases ([?g0, ?g1] ! l) (rows ?pris ! k)
      \<longleftrightarrow> k = 0 \<and> l = 0"
    using m00 m01 m02 m10 m11 m12
    by (simp add: numeral_3_eq_3 numeral_2_eq_2 less_Suc_eq all_conj_distrib)
  from view_single_match [OF wf one]
  obtain out where out: "merge_coordinates True fuzz_ratio ?pris [?g0, ?g1] = Inr out"
    "length (rows out) = 3"
    "\<forall>k<3. if k = 0
             then rows out ! k ! 13 = geo_lat ([?g0, ?g1] ! 0) \<and>
                  rows out ! k ! 14 = geo_long ([?g0, ?g1] ! 0)
             else rows out ! k ! 13 = [] \<and> rows out ! k ! 14 = []"
    by blast
  from out(2) obtain a b c where abc: "rows out = [a, b, c]"
    by (auto simp: length_Suc_conv numeral_3_eq_3)
  from out(3) have "a ! 13 = str ''44.33'' \<and> a ! 14 = str ''-81.6'' \<and> b ! 13 = [] \<and> b ! 14 = []
      \<and> c ! 13 = [] \<and> c ! 14 = []"
    by (simp add: abc numeral_3_eq_3 less_Suc_eq all_conj_distrib)
  then have views: "\<exists>out. merge_coordinates True fuzz_ratio ?pris [?g0, ?g1] = Inr out \<and>
      map (\<lambda>r. (r ! 13, r ! 14)) (rows out) =
        [(str ''44.33'', str ''-81.6''), ([], []), ([], [])]"
    using out(1) abc by simp
  have copies: "merge_coordinates False fuzz_ratio ?pris [?g0, ?g1] =
      Inr \<lparr>columns = pris_columns @ [str ''Latitude'', str ''Longitude''],
           rows = map (\<lambda>r. r @ [[], []]) (rows ?pris)\<rparr>"
    by (simp add: merge_coordinates_copy import_pris_Inr [OF wf(1-4)])
      (simp add: pris_columns_def pris_row_def)
  have cells: "map (\<lambda>r. (r ! 13, r ! 14)) (map (\<lambda>r. r @ [[], []]) (rows ?pris)) =
      [([], []), ([], []), ([], [])]"
    by (simp add: pris_row_def)
  show ?thesis
    using views copies cells m00 by simp
qed

section \<open>Properties of the selection\<close>

text \<open>Rule sets that evaluate the two sample parsers and the case mappings.\<close>

lemmas iso_date_eval =
  iso_date_def str_def digits_value_def is_digit_def days_in_month_def is_leap_def

lemmas decimal_float_eval = decimal_float_def str_def digits_value_def is_digit_def

lemmas upper_eval = str_def py_upper_def upper_cp_def

subsection \<open>Eligibility\<close>

lemma confirm_deployment_short_date:
  "length date_str \<le> 4 \<Longrightarrow> confirm_deployment parse to_float date_str capacity = Inr False"
  by (simp add: confirm_deployment_def)

text \<open>
  Claim C3. \<^verbatim>\<open>confirm_deployment\<close> returns \<open>True\<close> exactly when the date string is longer
  than four code points, the capacity converts to a float above 400 and the date string
  parses. Whenever the capacity converts, the call returns a truth value, so a date that
  does not parse gives \<open>False\<close> and no exception. A date string of length at most four
  gives \<open>False\<close>, as the empty one does with capacity \<^verbatim>\<open>900\<close>; with a parser that reads
  \<^verbatim>\<open>1985-06-01\<close> and \<^verbatim>\<open>float\<close> reading \<^verbatim>\<open>900\<close> and \<^verbatim>\<open>300\<close> as these numbers, the date with
  \<^verbatim>\<open>900\<close> gives \<open>True\<close> and with \<^verbatim>\<open>300\<close> gives \<open>False\<close>.
\<close>

theorem confirm_deployment_eligible:
  "(confirm_deployment parse to_float date_str capacity = Inr True \<longleftrightarrow>
      4 < length date_str \<and> (\<exists>c. to_float capacity = Some c \<and> float_gt c 400) \<and>
      parse date_str \<noteq> None)
   \<and> (\<forall>c. to_float capacity = Some c \<longrightarrow>
         confirm_deployment parse to_float date_str capacity =
           Inr (4 < length date_str \<and> float_gt c 400 \<and> parse date_str \<noteq> None))
   \<and> (parse (str ''1985-06-01'') \<noteq> None \<and> to_float (str ''900'') = Some (Fl 900) \<longrightarrow>
         confirm_deployment parse to_float (str ''1985-06-01'') (str ''900'') = Inr True)
   \<and> confirm_deployment parse to_float (str '''') (str ''900'') = Inr False
   \<and> (to_float (str ''300'') = Some (Fl 300) \<longrightarrow>
         confirm_deployment parse to_float (str ''1985-06-01'') (str ''300'') = Inr False)"
proof (intro conjI allI impI)
  show "confirm_deployment parse to_float date_str capacity = Inr True \<longleftrightarrow>
      4 < length date_str \<and> (\<exists>c. to_float capacity = Some c \<and> float_gt c 400) \<and>
      parse date_str \<noteq> None"
    by (auto simp: confirm_deployment_def split: option.splits)
next
  fix c assume "to_float capacity = Some c"
  then show "confirm_deployment parse to_float date_str capacity =
      Inr (4 < length date_str \<and> float_gt c 400 \<and> parse date_str \<noteq> None)"
    by (auto simp: confirm_deployment_def split: option.splits)
next
  assume "parse (str ''1985-06-01'') \<noteq> None \<and> to_float (str ''900'') = Some (Fl 900)"
  then show "confirm_deployment parse to_float (str ''1985-06-01'') (str ''900'') = Inr True"
    by (auto simp: confirm_deployment_def str_def)
next
  show "confirm_deployment parse to_float (str '''') (str ''900'') = Inr False"
    by (simp add: confirm_deployment_def str_def)
next
  assume "to_float (str ''300'') = Some (Fl 300)"
  then show "confirm_deployment parse to_float (str ''1985-06-01'') (str ''300'') = Inr False"
    by (simp add: confirm_deployment_def)
qed

text \<open>
  With the two sample parsers: the date of the claim is eligible with capacity \<^verbatim>\<open>900\<close>, and
  a thirteenth month is not a date, which gives \<open>False\<close>.
\<close>

theorem confirm_deployment_eligible_witness:
  "confirm_deployment iso_date decimal_float (str ''1985-06-01'') (str ''900'') = Inr True
   \<and> confirm_deployment iso_date decimal_float (str ''1985-13-01'') (str ''900'') = Inr False
   \<and> confirm_deployment iso_date decimal_float (str ''1985-06-01'') (str ''300'') = Inr False"
proof -
  have d: "iso_date (str ''1985-06-01'') \<noteq> None"
    and n: "iso_date (str ''1985-13-01'') = None"
    by (simp_all add: iso_date_eval)
  have f: "decimal_float (str ''900'') = Some (Fl 900)"
    and g: "decimal_float (str ''300'') = Some (Fl 300)"
    by (simp_all add: decimal_float_eval)
  note t = confirm_deployment_eligible [of iso_date decimal_float]
  have "confirm_deployment iso_date decimal_float (str ''1985-06-01'') (str ''900'') = Inr True"
    using t [of "[]" "[]"] d f by blast
  moreover have "confirm_deployment iso_date decimal_float (str ''1985-13-01'') (str ''900'') =
      Inr False"
    using t [of "str ''1985-13-01''" "str ''900''"] n f by simp
  moreover have "confirm_deployment iso_date decimal_float (str ''1985-06-01'') (str ''300'') =
      Inr False"
    using t [of "[]" "[]"] g by blast
  ultimately show ?thesis by blast
qed

text \<open>
  Claim C9, as stated, fails: for a date string of at most four code points the capacity
  is never converted, so a capacity that is no number raises nothing. Here the date is
  empty and the capacity is \<^verbatim>\<open>N/A\<close>, which the sample \<^verbatim>\<open>float\<close> rejects as Python's does.
\<close>

theorem confirm_deployment_bad_capacity_counterexample:
  "decimal_float (str ''N/A'') = None
   \<and> confirm_deployment iso_date decimal_float (str '''') (str ''N/A'') = Inr False"
  by (simp add: decimal_float_eval confirm_deployment_def)

text \<open>
  Claim C9, amended. For a capacity string that \<^verbatim>\<open>float\<close> rejects, the eligibility check
  raises the conversion failure when the date string is longer than four code points,
  and returns \<open>False\<close> when it is not.
\<close>

theorem confirm_deployment_bad_capacity:
  "to_float capacity = None \<Longrightarrow>
   confirm_deployment parse to_float date_str capacity =
     (if 4 < length date_str then Inl (FloatError capacity) else Inr False)"
  by (simp add: confirm_deployment_def)

theorem confirm_deployment_bad_capacity_witness:
  "confirm_deployment iso_date decimal_float (str ''1985-06-01'') (str ''N/A'')
     = Inl (FloatError (str ''N/A''))"
proof -
  have "decimal_float (str ''N/A'') = None"
    by (simp add: decimal_float_eval)
  then show ?thesis
    using confirm_deployment_bad_capacity
      [where to_float = decimal_float and capacity = "str ''N/A''" and parse = iso_date
         and date_str = "str ''1985-06-01''"]
    by (simp add: str_def)
qed

subsection \<open>Regions\<close>

lemma select_rows_no_ValueError:
  "select_rows parse to_float countries in_list reactor_list \<noteq> Inl (ValueError msg)"
proof (induction in_list arbitrary: reactor_list)
  case Nil
  then show ?case by simp
next
  case (Cons row in_list)
  have c: "confirm_deployment parse to_float s cap \<noteq> Inl (ValueError msg)" for s cap
    by (simp add: confirm_deployment_def split: option.splits)
  show ?case
    using Cons.IH c
    by (auto simp: getitem_def split: sum.splits)
qed

lemma region_keys:
  "set (map fst regions) =
     {str ''ASIA'', str ''AFRICA'', str ''EUROPE'', str ''SOUTH_AMERICA'', str ''NORTH_AMERICA'',
      str ''UNITED_STATES'', str ''ALL''}"
  by (simp add: regions_def)

lemma regions_EUROPE: "map_of regions (str ''EUROPE'') = Some EUROPE"
  by (simp add: regions_def str_def)

text \<open>
  Claim C6. \<^verbatim>\<open>select_region\<close> raises its \<^verbatim>\<open>ValueError\<close> exactly when the upper-cased region
  name is none of the seven names, and then for every list of rows, so before it reads
  any row; \<^verbatim>\<open>ATLANTIS\<close> is such a name. For the region \<^verbatim>\<open>EUROPE\<close> the country \<^verbatim>\<open>FRANCE\<close> is in
  the region's set, so a row of that country is selected or not by its eligibility alone.
\<close>

theorem select_region_invalid_iff:
  "((\<exists>msg. select_region parse to_float in_list region = Inl (ValueError msg)) \<longleftrightarrow>
      py_upper region \<notin> {str ''ASIA'', str ''AFRICA'', str ''EUROPE'', str ''SOUTH_AMERICA'',
                           str ''NORTH_AMERICA'', str ''UNITED_STATES'', str ''ALL''})
   \<and> (py_upper region \<notin> {str ''ASIA'', str ''AFRICA'', str ''EUROPE'', str ''SOUTH_AMERICA'',
                            str ''NORTH_AMERICA'', str ''UNITED_STATES'', str ''ALL''} \<longrightarrow>
        (\<forall>any_list. select_region parse to_float any_list region =
           Inl (ValueError (region @ str ''is not a valid region''))))
   \<and> select_region parse to_float in_list (str ''ATLANTIS'') =
        Inl (ValueError (str ''ATLANTISis not a valid region''))
   \<and> py_upper (str ''FRANCE'') \<in> set (the (map_of regions (py_upper (str ''EUROPE''))))
   \<and> (10 < length row \<and> row ! 0 = str ''FRANCE'' \<longrightarrow>
        select_region parse to_float [row] (str ''EUROPE'') =
          (case confirm_deployment parse to_float (row ! 10) (row ! 3) of
             Inl e \<Rightarrow> Inl e
           | Inr deployed \<Rightarrow> Inr (if deployed then [row] else [])))"
proof (intro conjI impI allI)
  show "(\<exists>msg. select_region parse to_float in_list region = Inl (ValueError msg)) \<longleftrightarrow>
      py_upper region \<notin> {str ''ASIA'', str ''AFRICA'', str ''EUROPE'', str ''SOUTH_AMERICA'',
                           str ''NORTH_AMERICA'', str ''UNITED_STATES'', str ''ALL''}"
    unfolding region_keys [symmetric]
    by (simp add: select_region_def select_rows_no_ValueError)
next
  fix any_list
  assume "py_upper region \<notin> {str ''ASIA'', str ''AFRICA'', str ''EUROPE'', str ''SOUTH_AMERICA'',
                           str ''NORTH_AMERICA'', str ''UNITED_STATES'', str ''ALL''}"
  then have "py_upper region \<notin> set (map fst regions)"
    unfolding region_keys .
  then show "select_region parse to_float any_list region =
      Inl (ValueError (region @ str ''is not a valid region''))"
    by (simp add: select_region_def)
next
  have "py_upper (str ''ATLANTIS'') \<notin> set (map fst regions)"
    unfolding region_keys by (simp add: upper_eval)
  then show "select_region parse to_float in_list (str ''ATLANTIS'') =
      Inl (ValueError (str ''ATLANTISis not a valid region''))"
    by (simp add: select_region_def) (simp add: str_def)
next
  have u: "py_upper (str ''EUROPE'') = str ''EUROPE''"
    and f: "py_upper (str ''FRANCE'') = str ''FRANCE''"
    by (simp_all add: upper_eval)
  have m: "str ''FRANCE'' \<in> set EUROPE"
    by (simp add: EUROPE_def)
  show "py_upper (str ''FRANCE'') \<in> set (the (map_of regions (py_upper (str ''EUROPE''))))"
    by (simp add: u f regions_EUROPE m)
  assume a: "10 < length row \<and> row ! 0 = str ''FRANCE''"
  have k: "str ''EUROPE'' \<in> set (map fst regions)"
    unfolding region_keys by simp
  from a have g: "getitem row 0 = Inr (str ''FRANCE'')" "getitem row 3 = Inr (row ! 3)"
    "getitem row 10 = Inr (row ! 10)"
    by (auto simp: getitem_def)
  show "select_region parse to_float [row] (str ''EUROPE'') =
      (case confirm_deployment parse to_float (row ! 10) (row ! 3) of
         Inl e \<Rightarrow> Inl e
       | Inr deployed \<Rightarrow> Inr (if deployed then [row] else []))"
    using k by (simp add: select_region_def u f regions_EUROPE m g split: sum.splits)
qed

text \<open>
  With the sample parsers: a French reactor is selected for \<^verbatim>\<open>EUROPE\<close>, and \<^verbatim>\<open>Atlantis\<close> is
  refused whatever the rows are, here a row too short to be read.
\<close>

theorem select_region_invalid_iff_witness:
  "select_region iso_date decimal_float
     [pris_row (str ''FRANCE'') (str ''BUGEY-2'') (str ''PWR'') (str ''910'') (str ''1979-03-01'') []]
     (str ''EUROPE'')
   = Inr [pris_row (str ''FRANCE'') (str ''BUGEY-2'') (str ''PWR'') (str ''910'')
            (str ''1979-03-01'') []]
   \<and> select_region iso_date decimal_float [[]] (str ''Atlantis'')
       = Inl (ValueError (str ''Atlantisis not a valid region''))"
proof -
  let ?row = "pris_row (str ''FRANCE'') (str ''BUGEY-2'') (str ''PWR'') (str ''910'')
      (str ''1979-03-01'') []"
  note t = select_region_invalid_iff [of iso_date decimal_float]
  have a: "10 < length ?row \<and> ?row ! 0 = str ''FRANCE''"
    by (simp add: pris_row_def)
  have cells: "?row ! 10 = str ''1979-03-01''" "?row ! 3 = str ''910''"
    by (simp_all add: pris_row_def)
  have d: "iso_date (str ''1979-03-01'') = Some (midnight 1979 3 1)"
    by (simp add: iso_date_eval)
  have f: "decimal_float (str ''910'') = Some (Fl 910)"
    by (simp add: decimal_float_eval)
  have l: "4 < length (str ''1979-03-01'')"
    by (simp add: str_def)
  have c: "confirm_deployment iso_date decimal_float (?row ! 10) (?row ! 3) = Inr True"
    unfolding cells by (simp add: confirm_deployment_def d f l)
  have "select_region iso_date decimal_float [?row] (str ''EUROPE'') =
      (case confirm_deployment iso_date decimal_float (?row ! 10) (?row ! 3) of
         Inl e \<Rightarrow> Inl e
       | Inr deployed \<Rightarrow> Inr (if deployed then [?row] else []))"
    using t [of "[]" "[]" ?row] a by blast
  then have one: "select_region iso_date decimal_float [?row] (str ''EUROPE'') = Inr [?row]"
    unfolding c by simp
  have u: "py_upper (str ''Atlantis'') \<notin> {str ''ASIA'', str ''AFRICA'', str ''EUROPE'',
      str ''SOUTH_AMERICA'', str ''NORTH_AMERICA'', str ''UNITED_STATES'', str ''ALL''}"
    by (simp add: upper_eval)
  have "select_region iso_date decimal_float [[]] (str ''Atlantis'') =
      Inl (ValueError (str ''Atlantis'' @ str ''is not a valid region''))"
    using t [of "[]" "str ''Atlantis''" "[]"] u by blast
  then have two: "select_region iso_date decimal_float [[]] (str ''Atlantis'') =
      Inl (ValueError (str ''Atlantisis not a valid region''))"
    by (simp add: str_def)
  from one two show ?thesis by (rule conjI)
qed

section \<open>Properties of the lifetime and the build time\<close>

subsection \<open>Lifetime\<close>

lemma ball_dropWhile: "(\<forall>x\<in>set (dropWhile P s). P x) \<longleftrightarrow> (\<forall>x\<in>set s. P x)"
  by (induction s) auto

lemma py_strip_blank: "py_strip s = [] \<longleftrightarrow> list_all isspace s"
  by (simp add: py_strip_def dropWhile_eq_Nil_conv ball_dropWhile list_all_iff)

lemma timedelta_days_midnight:
  "timedelta_days (midnight y m d) (midnight y' m' d') =
     toordinal (midnight y m d) - toordinal (midnight y' m' d')"
proof -
  have "total_microseconds (midnight y m d) - total_microseconds (midnight y' m' d') =
      (toordinal (midnight y m d) - toordinal (midnight y' m' d')) * 86400000000"
    by (simp add: total_microseconds_def midnight_def algebra_simps)
  then show ?thesis
    by (simp add: timedelta_days_def)
qed

lemma py_trunc_toward_zero:
  "0 \<le> x \<Longrightarrow> real_of_int (py_trunc x) \<le> x \<and> x < real_of_int (py_trunc x) + 1"
  "x \<le> 0 \<Longrightarrow> x \<le> real_of_int (py_trunc x) \<and> real_of_int (py_trunc x) - 1 < x"
proof -
  show "real_of_int (py_trunc x) \<le> x \<and> x < real_of_int (py_trunc x) + 1" if "0 \<le> x"
    using that floor_correct [of x] by (simp add: py_trunc_def)
  show "x \<le> real_of_int (py_trunc x) \<and> real_of_int (py_trunc x) - 1 < x" if "x \<le> 0"
  proof (cases "x = 0")
    case True
    then show ?thesis by (simp add: py_trunc_def)
  next
    case False
    with that have "x < 0" by simp
    then show ?thesis
      using ceiling_correct [of x] by (simp add: py_trunc_def)
  qed
qed

text \<open>
  Claim C4. \<^verbatim>\<open>get_lifetime\<close> returns 720 whenever the shutdown field (cell 11) is empty or
  white space, whatever the commercial date is and without parsing it. Otherwise, when
  both dates parse, it returns the day count between the two dates divided by 365/12
  and truncated toward zero; for two dates without a time of day the day count is the
  difference of their ordinals. With a parser that reads the two strings as these dates,
  a commercial date 1980-01-01 and a shutdown date 2010-01-01 give 360; the two dates
  are 10958 days apart.
\<close>

theorem get_lifetime_months:
  "(11 < length in_row \<and> list_all isspace (in_row ! 11) \<longrightarrow> get_lifetime parse in_row = Inr 720)
   \<and> (11 < length in_row \<and> \<not> list_all isspace (in_row ! 11) \<and>
        parse (in_row ! 11) = Some sd \<and> parse (in_row ! 10) = Some cd \<longrightarrow>
        get_lifetime parse in_row =
          Inr (py_trunc (real_of_int (timedelta_days sd cd) / (365 / 12))))
   \<and> (11 < length in_row \<and> in_row ! 10 = str ''1980-01-01'' \<and> in_row ! 11 = str ''2010-01-01'' \<and>
        parse (str ''1980-01-01'') = Some (midnight 1980 1 1) \<and>
        parse (str ''2010-01-01'') = Some (midnight 2010 1 1) \<longrightarrow>
        get_lifetime parse in_row = Inr 360)
   \<and> timedelta_days (midnight 2010 1 1) (midnight 1980 1 1) = 10958"
proof (intro conjI impI)
  assume "11 < length in_row \<and> list_all isspace (in_row ! 11)"
  then show "get_lifetime parse in_row = Inr 720"
    by (simp add: get_lifetime_def getitem_def py_strip_blank)
next
  assume "11 < length in_row \<and> \<not> list_all isspace (in_row ! 11) \<and>
        parse (in_row ! 11) = Some sd \<and> parse (in_row ! 10) = Some cd"
  then show "get_lifetime parse in_row =
      Inr (py_trunc (real_of_int (timedelta_days sd cd) / (365 / 12)))"
    by (simp add: get_lifetime_def getitem_def py_strip_blank)
next
  show days: "timedelta_days (midnight 2010 1 1) (midnight 1980 1 1) = 10958"
    unfolding timedelta_days_midnight
    by (simp add: toordinal_def midnight_def days_before_year_def days_before_month_def is_leap_def)
  assume a: "11 < length in_row \<and> in_row ! 10 = str ''1980-01-01'' \<and>
        in_row ! 11 = str ''2010-01-01'' \<and>
        parse (str ''1980-01-01'') = Some (midnight 1980 1 1) \<and>
        parse (str ''2010-01-01'') = Some (midnight 2010 1 1)"
  have nb: "py_strip (str ''2010-01-01'') \<noteq> []"
    by (simp add: py_strip_def str_def isspace_def)
  have "py_trunc (real_of_int 10958 / (365 / 12)) = 360"
    by (simp add: py_trunc_def)
  with a days nb show "get_lifetime parse in_row = Inr 360"
    by (simp add: get_lifetime_def getitem_def)
qed

text \<open>
  With the sample parser: a reactor that ran from 1980 to 2010, and one with a blank
  shutdown date whose commercial date is no date at all.
\<close>

theorem get_lifetime_months_witness:
  "get_lifetime iso_date
     (pris_row (str ''JAPAN'') (str ''OHI-1'') (str ''PWR'') (str ''1120'') (str ''1980-01-01'')
        (str ''2010-01-01'')) = Inr 360
   \<and> get_lifetime iso_date
     (pris_row (str ''JAPAN'') (str ''OHI-2'') (str ''PWR'') (str ''1120'') (str ''unknown'')
        (str ''  '')) = Inr 720"
proof -
  let ?a = "pris_row (str ''JAPAN'') (str ''OHI-1'') (str ''PWR'') (str ''1120'')
      (str ''1980-01-01'') (str ''2010-01-01'')"
  let ?b = "pris_row (str ''JAPAN'') (str ''OHI-2'') (str ''PWR'') (str ''1120'') (str ''unknown'')
      (str ''  '')"
  have a: "11 < length ?a \<and> ?a ! 10 = str ''1980-01-01'' \<and> ?a ! 11 = str ''2010-01-01'' \<and>
        iso_date (str ''1980-01-01'') = Some (midnight 1980 1 1) \<and>
        iso_date (str ''2010-01-01'') = Some (midnight 2010 1 1)"
    by (simp add: pris_row_def iso_date_eval)
  have b: "11 < length ?b \<and> list_all isspace (?b ! 11)"
    by (simp add: pris_row_def str_def isspace_def)
  from get_lifetime_months [of ?a iso_date] a have "get_lifetime iso_date ?a = Inr 360"
    by blast
  moreover from get_lifetime_months [of ?b iso_date] b have "get_lifetime iso_date ?b = Inr 720"
    by blast
  ultimately show ?thesis by blast
qed

subsection \<open>Build time\<close>

lemmas file_name_eval = file_name_def dirname_def py_replace_def starts_with_def str_def

lemma path_loop_if:
  "path_loop row delta path_list d =
     (if list_ex (\<lambda>reactor. py_replace (row ! 1) (str '' '') (str ''_'') @ str ''.xml''
                                = file_name reactor) path_list
      then d(py_replace (row ! 1) (str '' '') (str ''_'') \<mapsto> (row ! 0, delta))
      else d)"
proof -
  define name where "name = py_replace (row ! 1) (str '' '') (str ''_'')"
  define u where "u = (\<lambda>d :: pystr \<rightharpoonup> pystr \<times> int. d(name \<mapsto> (row ! 0, delta)))"
  define c where "c = (\<lambda>reactor. name @ str ''.xml'' = file_name reactor)"
  have uu: "u (u r) = u r" for r
    by (simp add: u_def)
  have "path_loop row delta path_list d = fold (\<lambda>reactor d. if c reactor then u d else d) path_list d"
    unfolding path_loop_def Let_def name_def u_def c_def ..
  also have "\<dots> = (if list_ex c path_list then u d else d)"
    by (rule fold_cond_update [OF uu])
  finally show ?thesis
    unfolding u_def c_def name_def .
qed

lemma buildtime_rows_sound:
  assumes "\<forall>row\<in>set in_list. 10 < length row \<and> parse (row ! 10) \<noteq> None"
  shows "\<exists>d. buildtime_rows parse start_year path_list in_list d0 = Inr d \<and>
     (\<forall>name v. d name = Some v \<longrightarrow> d0 name = Some v \<or>
        (\<exists>row\<in>set in_list. \<exists>dt. parse (row ! 10) = Some dt \<and>
           name = py_replace (row ! 1) (str '' '') (str ''_'') \<and>
           v = (row ! 0, (year dt - start_year) * 12 + month dt
                           + py_round (real_of_int (day dt) / (365 / 12)))))"
  using assms
proof (induction in_list arbitrary: d0)
  case Nil
  then show ?case by simp
next
  case (Cons row in_list)
  from Cons.prems obtain dt where dt: "10 < length row" "parse (row ! 10) = Some dt"
    by auto
  define d1 where "d1 = path_loop row ((year dt - start_year) * 12 + month dt
      + py_round (real_of_int (day dt) / (365 / 12))) path_list d0"
  have step: "buildtime_rows parse start_year path_list (row # in_list) d0 =
      buildtime_rows parse start_year path_list in_list d1"
    using dt by (simp add: getitem_def d1_def)
  have d1: "d1 name = Some v \<Longrightarrow> d0 name = Some v \<or>
      (name = py_replace (row ! 1) (str '' '') (str ''_'') \<and>
       v = (row ! 0, (year dt - start_year) * 12 + month dt
                       + py_round (real_of_int (day dt) / (365 / 12))))" for name v
    unfolding d1_def path_loop_if by (auto split: if_splits)
  from Cons.IH [of d1] Cons.prems
  obtain d where d: "buildtime_rows parse start_year path_list in_list d1 = Inr d"
    "\<forall>name v. d name = Some v \<longrightarrow> d1 name = Some v \<or>
        (\<exists>row\<in>set in_list. \<exists>dt. parse (row ! 10) = Some dt \<and>
           name = py_replace (row ! 1) (str '' '') (str ''_'') \<and>
           v = (row ! 0, (year dt - start_year) * 12 + month dt
                           + py_round (real_of_int (day dt) / (365 / 12))))"
    by auto
  have main: "d0 name = Some v \<or>
        (\<exists>r\<in>set (row # in_list). \<exists>dt. parse (r ! 10) = Some dt \<and>
           name = py_replace (r ! 1) (str '' '') (str ''_'') \<and>
           v = (r ! 0, (year dt - start_year) * 12 + month dt
                         + py_round (real_of_int (day dt) / (365 / 12))))"
    if "d name = Some v" for name v
  proof -
    from d(2) that consider "d1 name = Some v"
      | "\<exists>row\<in>set in_list. \<exists>dt. parse (row ! 10) = Some dt \<and>
           name = py_replace (row ! 1) (str '' '') (str ''_'') \<and>
           v = (row ! 0, (year dt - start_year) * 12 + month dt
                           + py_round (real_of_int (day dt) / (365 / 12)))"
      by blast
    then show ?thesis
    proof cases
      case 1
      from d1 [OF 1] dt(2) show ?thesis by auto
    next
      case 2
      then show ?thesis by auto
    qed
  qed
  show ?case
  proof (intro exI [of _ d] conjI allI impI)
    show "buildtime_rows parse start_year path_list (row # in_list) d0 = Inr d"
      unfolding step by (rule d(1))
  next
    fix name v
    assume "d name = Some v"
    then show "d0 name = Some v \<or>
        (\<exists>r\<in>set (row # in_list). \<exists>dt. parse (r ! 10) = Some dt \<and>
           name = py_replace (r ! 1) (str '' '') (str ''_'') \<and>
           v = (r ! 0, (year dt - start_year) * 12 + month dt
                         + py_round (real_of_int (day dt) / (365 / 12))))"
      by (rule main)
  qed
qed

lemma day_rounding:
  assumes "1 \<le> d" and "d \<le> 31"
  shows "py_round (real_of_int d / (365 / 12)) = (if 16 \<le> d then 1 else 0)"
proof -
  have x: "real_of_int d / (365 / 12) = real_of_int (12 * d) / 365"
    by simp
  show ?thesis
  proof (cases "d \<le> 30")
    case True
    have "\<lfloor>real_of_int (12 * d) / 365\<rfloor> = 0"
      using assms(1) True by (intro floor_unique) auto
    then show ?thesis
      unfolding x py_round_def Let_def using assms(1) True by (auto simp: field_simps)
  next
    case False
    with assms(2) have d: "d = 31" by simp
    have "\<lfloor>real_of_int (12 * 31) / 365\<rfloor> = 1"
      by (intro floor_unique) auto
    then show ?thesis
      unfolding x py_round_def Let_def d by simp
  qed
qed

text \<open>
  Claim C5. When every row of the list has a commercial date that parses,
  \<^verbatim>\<open>get_buildtime\<close> returns a dictionary, and the value it holds for a reactor is the
  country of one of the rows of that name with the offset
  \<open>(year - start_year) \<sdot> 12 + month + round (day / (365 / 12))\<close> of that row's date. For a
  single row whose file is among the paths the dictionary is that one entry. The month
  enters as it is, with no \<open>month - 1\<close>; the rounded day term is 0 up to the 15th and 1
  from the 16th on, so the first of January of the start year has offset 1.
\<close>

theorem get_buildtime_offset:
  "((\<forall>row\<in>set in_list. 10 < length row \<and> parse (row ! 10) \<noteq> None) \<longrightarrow>
      (\<exists>d. get_buildtime parse in_list start_year path_list = Inr d \<and>
         (\<forall>name country delta. d name = Some (country, delta) \<longrightarrow>
            (\<exists>row\<in>set in_list. \<exists>dt. parse (row ! 10) = Some dt \<and>
               name = py_replace (row ! 1) (str '' '') (str ''_'') \<and> country = row ! 0 \<and>
               delta = (year dt - start_year) * 12 + month dt
                         + py_round (real_of_int (day dt) / (365 / 12))))))
   \<and> (10 < length row \<and> parse (row ! 10) = Some dt \<and>
        (\<exists>reactor\<in>set path_list.
            py_replace (row ! 1) (str '' '') (str ''_'') @ str ''.xml'' = file_name reactor) \<longrightarrow>
        get_buildtime parse [row] start_year path_list =
          Inr [py_replace (row ! 1) (str '' '') (str ''_'') \<mapsto>
                 (row ! 0, (year dt - start_year) * 12 + month dt
                             + py_round (real_of_int (day dt) / (365 / 12)))])
   \<and> (1 \<le> day dt \<and> day dt \<le> 31 \<longrightarrow>
        (year dt - start_year) * 12 + month dt + py_round (real_of_int (day dt) / (365 / 12))
          = (year dt - start_year) * 12 + month dt + (if 16 \<le> day dt then 1 else 0))"
proof (intro conjI impI)
  assume a: "\<forall>row\<in>set in_list. 10 < length row \<and> parse (row ! 10) \<noteq> None"
  from buildtime_rows_sound [OF a, of start_year path_list Map.empty]
  show "\<exists>d. get_buildtime parse in_list start_year path_list = Inr d \<and>
         (\<forall>name country delta. d name = Some (country, delta) \<longrightarrow>
            (\<exists>row\<in>set in_list. \<exists>dt. parse (row ! 10) = Some dt \<and>
               name = py_replace (row ! 1) (str '' '') (str ''_'') \<and> country = row ! 0 \<and>
               delta = (year dt - start_year) * 12 + month dt
                         + py_round (real_of_int (day dt) / (365 / 12))))"
    unfolding get_buildtime_def by fastforce
next
  assume "10 < length row \<and> parse (row ! 10) = Some dt \<and>
        (\<exists>reactor\<in>set path_list.
            py_replace (row ! 1) (str '' '') (str ''_'') @ str ''.xml'' = file_name reactor)"
  then show "get_buildtime parse [row] start_year path_list =
          Inr [py_replace (row ! 1) (str '' '') (str ''_'') \<mapsto>
                 (row ! 0, (year dt - start_year) * 12 + month dt
                             + py_round (real_of_int (day dt) / (365 / 12)))]"
    by (simp add: get_buildtime_def getitem_def path_loop_if list_ex_iff)
next
  assume "1 \<le> day dt \<and> day dt \<le> 31"
  then show "(year dt - start_year) * 12 + month dt + py_round (real_of_int (day dt) / (365 / 12))
          = (year dt - start_year) * 12 + month dt + (if 16 \<le> day dt then 1 else 0)"
    using day_rounding [of "day dt"] by simp
qed

text \<open>
  A reactor that went commercial on the first of January of the start year, its file in
  the directory \<^verbatim>\<open>reactors\<close>: the offset is 1.
\<close>

theorem get_buildtime_offset_witness:
  "get_buildtime iso_date
     [pris_row (str ''JAPAN'') (str ''OHI-1'') (str ''PWR'') (str ''1120'') (str ''1980-01-01'') []]
     1980 [str ''reactors/OHI-1.xml'']
   = Inr [str ''OHI-1'' \<mapsto> (str ''JAPAN'', 1)]"
proof -
  let ?row = "pris_row (str ''JAPAN'') (str ''OHI-1'') (str ''PWR'') (str ''1120'')
      (str ''1980-01-01'') []"
  have n: "py_replace (?row ! 1) (str '' '') (str ''_'') = str ''OHI-1''"
    by (simp add: pris_row_def py_replace_def str_def starts_with_def)
  have f: "file_name (str ''reactors/OHI-1.xml'') = str ''OHI-1.xml''"
    by (simp add: file_name_eval)
  have p: "10 < length ?row \<and> iso_date (?row ! 10) = Some (midnight 1980 1 1)"
    by (simp add: pris_row_def iso_date_eval)
  have e: "\<exists>reactor\<in>set [str ''reactors/OHI-1.xml''].
      py_replace (?row ! 1) (str '' '') (str ''_'') @ str ''.xml'' = file_name reactor"
    unfolding n by (simp add: f) (simp add: str_def)
  have c: "?row ! 0 = str ''JAPAN''"
    by (simp add: pris_row_def)
  have r: "(year (midnight 1980 1 1) - 1980) * 12 + month (midnight 1980 1 1)
      + py_round (real_of_int (day (midnight 1980 1 1)) / (365 / 12)) = 1"
    by (simp add: midnight_def py_round_def)
  from get_buildtime_offset [of "[]" iso_date 1980 "[str ''reactors/OHI-1.xml'']" ?row
      "midnight 1980 1 1"] p e
  have "get_buildtime iso_date [?row] 1980 [str ''reactors/OHI-1.xml''] =
      Inr [py_replace (?row ! 1) (str '' '') (str ''_'') \<mapsto>
             (?row ! 0, (year (midnight 1980 1 1) - 1980) * 12 + month (midnight 1980 1 1)
                 + py_round (real_of_int (day (midnight 1980 1 1)) / (365 / 12)))]"
    by blast
  then show ?thesis
    unfolding n c r .
qed

text \<open>
  Claim C10 fails on the code, which takes the file name of a path by deleting every
  occurrence of the directory name from the path, not only the leading one. The path
  \<^verbatim>\<open>X/XANO-1.xml\<close> has the final component \<^verbatim>\<open>XANO-1.xml\<close>, but its directory name \<^verbatim>\<open>X\<close> is
  deleted twice, so the reactor \<^verbatim>\<open>ANO-1\<close> gets an entry although no path ends in
  \<^verbatim>\<open>ANO-1.xml\<close>. In the same way the reactor \<^verbatim>\<open>XANO-1\<close>, whose file is there, gets none.
\<close>

theorem get_buildtime_file_name_mismatch:
  "final_component (str ''X/XANO-1.xml'') = str ''XANO-1.xml''
   \<and> file_name (str ''X/XANO-1.xml'') = str ''ANO-1.xml''
   \<and> get_buildtime iso_date
        [pris_row (str ''UNITED STATES'') (str ''ANO-1'') (str ''PWR'') (str ''836'')
           (str ''1974-12-19'') []]
        1970 [str ''X/XANO-1.xml'']
      = Inr [str ''ANO-1'' \<mapsto> (str ''UNITED STATES'', 61)]
   \<and> get_buildtime iso_date
        [pris_row (str ''UNITED STATES'') (str ''XANO-1'') (str ''PWR'') (str ''836'')
           (str ''1974-12-19'') []]
        1970 [str ''X/XANO-1.xml'']
      = Inr Map.empty"
proof (intro conjI)
  show "final_component (str ''X/XANO-1.xml'') = str ''XANO-1.xml''"
    by (simp add: final_component_def str_def)
  show f: "file_name (str ''X/XANO-1.xml'') = str ''ANO-1.xml''"
    by (simp add: file_name_eval)
  have d: "iso_date (str ''1974-12-19'') = Some (midnight 1974 12 19)"
    by (simp add: iso_date_eval)
  have n1: "py_replace (str ''ANO-1'') (str '' '') (str ''_'') = str ''ANO-1''"
    and n2: "py_replace (str ''XANO-1'') (str '' '') (str ''_'') = str ''XANO-1''"
    by (simp_all add: py_replace_def str_def starts_with_def)
  have e1: "str ''ANO-1'' @ str ''.xml'' = str ''ANO-1.xml''"
    and e2: "str ''XANO-1'' @ str ''.xml'' \<noteq> str ''ANO-1.xml''"
    by (simp_all add: str_def)
  show "get_buildtime iso_date
        [pris_row (str ''UNITED STATES'') (str ''ANO-1'') (str ''PWR'') (str ''836'')
           (str ''1974-12-19'') []]
        1970 [str ''X/XANO-1.xml'']
      = Inr [str ''ANO-1'' \<mapsto> (str ''UNITED STATES'', 61)]"
    by (simp add: get_buildtime_def getitem_def pris_row_def d path_loop_if n1 f e1 midnight_def
        py_round_def)
  show "get_buildtime iso_date
        [pris_row (str ''UNITED STATES'') (str ''XANO-1'') (str ''PWR'') (str ''836'')
           (str ''1974-12-19'') []]
        1970 [str ''X/XANO-1.xml'']
      = Inr Map.empty"
    by (simp add: get_buildtime_def getitem_def pris_row_def d path_loop_if n2 f e2)
qed

end
